theory Spec2Isabelle
  imports Main "HOL-Library.Word"
begin

section \<open>The pggate client of the tablet server (pg_client.cc)\<close>

text \<open>
  A shallow embedding of \<^verbatim>\<open>PgClient::Impl\<close>: the object's members are a record, every
  member function is a function from the state before to the state after, every way the
  C++ can fail to return (a null dereference, a failed \<^verbatim>\<open>CHECK\<close>, an exception of
  \<^verbatim>\<open>std::promise\<close>, a \<^verbatim>\<open>future.get()\<close> that never returns) is a value of
  \<open>failure\<close>. What the object does to its surroundings is recorded in the state as
  well: the lines it logs, the calls it hands to the proxy, the heartbeat calls the proxy
  has not completed yet.
\<close>

subsection \<open>Scalars, flags and time\<close>

type_synonym uint64 = "64 word"
type_synonym uint32 = "32 word"
type_synonym int32 = "32 word"  \<comment> \<open>read with \<open>sint\<close>\<close>

text \<open>
  \<^verbatim>\<open>CoarseTimePoint\<close> is a time point of \<^verbatim>\<open>CoarseMonoClock\<close>: a signed 64-bit count of
  nanoseconds since the clock's epoch. \<^verbatim>\<open>CoarseTimePoint()\<close> is the epoch itself.
\<close>

type_synonym CoarseTimePoint = "64 word"

definition CoarseTimePoint_init :: CoarseTimePoint where
  "CoarseTimePoint_init = 0"

text \<open>
  A \<^verbatim>\<open>MonoDelta\<close>: a default-constructed one is uninitialized, \<^verbatim>\<open>MonoDelta::kMax\<close> is
  the largest one, any other is a number of nanoseconds.
\<close>

datatype MonoDelta = Uninitialized | kMax | Nanoseconds int

text \<open>
  The three gflags the file reads. \<^verbatim>\<open>FLAGS_pg_client_heartbeat_interval_ms\<close> is the one
  it defines (uint64, default 10000); the other two are declared elsewhere.
\<close>

record flags =
  FLAGS_use_node_hostname_for_local_tserver :: bool
  FLAGS_yb_client_admin_operation_timeout_sec :: int32
  FLAGS_pg_client_heartbeat_interval_ms :: uint64

text \<open>
  A setting of the flags for the examples: the heartbeat interval at the default the file
  gives it, an administrative timeout of 60 seconds.
\<close>

definition example_flags :: flags where
  "example_flags =
     \<lparr>FLAGS_use_node_hostname_for_local_tserver = False,
      FLAGS_yb_client_admin_operation_timeout_sec = 60,
      FLAGS_pg_client_heartbeat_interval_ms = 10000\<rparr>"

text \<open>
  \<^verbatim>\<open>FLAGS_yb_client_admin_operation_timeout_sec * 1s\<close>: an int32 times
  \<^verbatim>\<open>std::chrono::seconds\<close> is a signed 64-bit count of seconds; as a \<^verbatim>\<open>MonoDelta\<close> it
  is that many seconds in nanoseconds (no int32 times \<open>10^9\<close> leaves 64 bits).
\<close>

definition admin_operation_timeout :: "flags \<Rightarrow> MonoDelta" where
  "admin_operation_timeout fl =
     Nanoseconds (sint (FLAGS_yb_client_admin_operation_timeout_sec fl) * 1000000000)"

text \<open>
  \<^verbatim>\<open>FLAGS_pg_client_heartbeat_interval_ms * 1ms\<close>: a uint64 times
  \<^verbatim>\<open>std::chrono::milliseconds\<close> is a count of milliseconds whose representation is the
  common type of uint64 and int64, that is uint64.
\<close>

definition heartbeat_interval_ms :: "flags \<Rightarrow> uint64" where
  "heartbeat_interval_ms fl = FLAGS_pg_client_heartbeat_interval_ms fl * 1"

text \<open>
  \<^verbatim>\<open>FLAGS_pg_client_heartbeat_interval_ms * 1ms - 1s\<close>, the period \<^verbatim>\<open>Start\<close> hands to the
  poller: the second is converted to 1000 milliseconds and subtracted in uint64, so the
  difference wraps around below 1000 ms.
\<close>

definition heartbeat_period_ms :: "flags \<Rightarrow> uint64" where
  "heartbeat_period_ms fl = heartbeat_interval_ms fl - 1000"

text \<open>
  \<^verbatim>\<open>CoarseMonoClock::now() + FLAGS_pg_client_heartbeat_interval_ms * 1ms\<close>: the sum of a
  time point in int64 nanoseconds and a duration in uint64 milliseconds is computed in
  uint64 nanoseconds (the milliseconds times \<open>10^6\<close>, both operations modulo \<open>2^64\<close>) and
  converted back to the \<^verbatim>\<open>CoarseTimePoint\<close> that \<^verbatim>\<open>SetupAdminController\<close> takes.
\<close>

definition heartbeat_deadline :: "flags \<Rightarrow> CoarseTimePoint \<Rightarrow> CoarseTimePoint" where
  "heartbeat_deadline fl now = now + heartbeat_interval_ms fl * 1000000"

subsection \<open>Status, log lines and failures\<close>

datatype Status = OK | NotOK nat string  \<comment> \<open>a code and a message\<close>

definition ok :: "Status \<Rightarrow> bool" where
  "ok st = (st = OK)"

datatype severity = INFO | WARNING | DFATAL

record HostPort =
  hp_host :: string
  hp_port :: "16 word"

text \<open>What a log statement streams after its literal text.\<close>

datatype streamed = Nothing | StreamedStatus Status | StreamedHostPort HostPort

datatype log_line = LogLine severity string streamed

text \<open>The ways a member function does not return normally.\<close>

datatype failure =
    NullProxyDereferenced  \<comment> \<open>\<^verbatim>\<open>proxy_->\<close> on a null pointer\<close>
  | CheckFailed  \<comment> \<open>a \<^verbatim>\<open>CHECK\<close> that does not hold: the process aborts\<close>
  | FutureAlreadyRetrieved  \<comment> \<open>\<^verbatim>\<open>get_future()\<close> a second time\<close>
  | PromiseAlreadySatisfied  \<comment> \<open>\<^verbatim>\<open>set_value\<close> a second time\<close>
  | BlockedForever  \<comment> \<open>\<^verbatim>\<open>future.get()\<close> on a promise nobody settles\<close>

subsection \<open>The RPC controller\<close>

text \<open>
  Modelled from the spec: \<^verbatim>\<open>rpc::RpcController\<close> (yb/rpc/rpc_controller.h is not among
  the sources). The spec's call context holds "either an explicit deadline (absolute
  time) or a fallback duration-based timeout"; the controller records which of the two
  the client set last, and \<^verbatim>\<open>Reset\<close> forgets it.
\<close>

datatype call_bound = Deadline CoarseTimePoint | Timeout MonoDelta

record RpcController =
  bound :: "call_bound option"

definition RpcController_init :: RpcController where
  "RpcController_init = \<lparr>bound = None\<rparr>"

definition Reset :: "RpcController \<Rightarrow> RpcController" where
  "Reset c = c\<lparr>bound := None\<rparr>"

definition set_deadline :: "CoarseTimePoint \<Rightarrow> RpcController \<Rightarrow> RpcController" where
  "set_deadline d c = c\<lparr>bound := Some (Deadline d)\<rparr>"

definition set_timeout :: "MonoDelta \<Rightarrow> RpcController \<Rightarrow> RpcController" where
  "set_timeout t c = c\<lparr>bound := Some (Timeout t)\<rparr>"

text \<open>
  \<^verbatim>\<open>SetupAdminController(controller, deadline = CoarseTimePoint())\<close>: a deadline other
  than \<^verbatim>\<open>CoarseTimePoint()\<close> is set as it is, otherwise the timeout of the flag.
\<close>

definition SetupAdminController ::
    "flags \<Rightarrow> RpcController \<Rightarrow> CoarseTimePoint \<Rightarrow> RpcController" where
  "SetupAdminController fl controller deadline =
     (if deadline \<noteq> CoarseTimePoint_init then set_deadline deadline controller
      else set_timeout (admin_operation_timeout fl) controller)"

subsection \<open>Requests and responses\<close>

text \<open>
  The protobuf messages, with the fields this file touches; a field is optional, so it is
  \<open>None\<close> until it is set. The requests of \<^verbatim>\<open>AlterTable\<close>, \<^verbatim>\<open>CreateDatabase\<close> and
  \<^verbatim>\<open>CreateTable\<close> come from the caller: the file only writes their session id, the
  other fields are the caller's.
\<close>

record PgHeartbeatRequestPB =
  hb_create :: "bool option"
  hb_session_id :: "uint64 option"

definition PgHeartbeatRequestPB_init :: PgHeartbeatRequestPB where
  "PgHeartbeatRequestPB_init = \<lparr>hb_create = None, hb_session_id = None\<rparr>"

record session_request =
  req_session_id :: "uint64 option"
  req_fields :: string

type_synonym PgAlterTableRequestPB = session_request
type_synonym PgCreateDatabaseRequestPB = session_request
type_synonym PgCreateTableRequestPB = session_request

record PgOpenTableRequestPB =
  open_table_id :: "string option"

record PgGetDatabaseInfoRequestPB =
  info_oid :: "uint32 option"

record PgReserveOidsRequestPB =
  reserve_database_oid :: "uint32 option"
  reserve_next_oid :: "uint32 option"
  reserve_count :: "uint32 option"

datatype rpc_request =
    HeartbeatReq PgHeartbeatRequestPB
  | AlterTableReq PgAlterTableRequestPB
  | CreateDatabaseReq PgCreateDatabaseRequestPB
  | CreateTableReq PgCreateTableRequestPB
  | OpenTableReq PgOpenTableRequestPB
  | GetDatabaseInfoReq PgGetDatabaseInfoRequestPB
  | ReserveOidsReq PgReserveOidsRequestPB
  | IsInitDbDoneReq  \<comment> \<open>\<^verbatim>\<open>PgIsInitDbDoneRequestPB\<close>: no field is set\<close>

text \<open>The session id a request carries, if it carries one.\<close>

fun carried_session_id :: "rpc_request \<Rightarrow> uint64 option" where
  "carried_session_id (HeartbeatReq r) = hb_session_id r"
| "carried_session_id (AlterTableReq r) = req_session_id r"
| "carried_session_id (CreateDatabaseReq r) = req_session_id r"
| "carried_session_id (CreateTableReq r) = req_session_id r"
| "carried_session_id (OpenTableReq r) = None"
| "carried_session_id (GetDatabaseInfoReq r) = None"
| "carried_session_id (ReserveOidsReq r) = None"
| "carried_session_id IsInitDbDoneReq = None"

text \<open>
  A response: its embedded status (absent when the tablet server reports no error) and
  the fields the operation reads.
\<close>

record 'p ResponsePB =
  resp_status :: "Status option"
  resp_fields :: 'p

type_synonym PgHeartbeatResponsePB = "unit ResponsePB"

record TablePartitionListPB =
  partitions_version :: uint32
  partitions_keys :: "string list"

record OpenTableFields =
  open_info :: string  \<comment> \<open>the table's schema response, as the tablet server sent it\<close>
  open_partitions :: TablePartitionListPB

record ReserveOidsFields =
  begin_oid :: uint32
  end_oid :: uint32

text \<open>
  Modelled from the spec: \<^verbatim>\<open>ResponseStatus\<close> (its header is not among the sources): it
  "inspects the response's embedded status field; if it signals an error, surfaces that
  as a failure result carrying the remote error's code/message", and is OK otherwise.
\<close>

definition ResponseStatus :: "'p ResponsePB \<Rightarrow> Status" where
  "ResponseStatus resp = (case resp_status resp of None \<Rightarrow> OK | Some st \<Rightarrow> st)"

subsection \<open>The collaborators the object owns\<close>

type_synonym ProxyCache = nat  \<comment> \<open>a handle\<close>
type_synonym Scheduler = nat  \<comment> \<open>a handle\<close>

record PgClientServiceProxy =
  proxy_cache_of :: ProxyCache
  remote :: HostPort
  resolve_cache_timeout_of :: MonoDelta

record Endpoint =
  address :: string
  port :: "16 word"

record TServerSharedData =
  endpoint :: Endpoint
  host :: string

text \<open>\<^verbatim>\<open>std::promise<Status>\<close> with the future it hands out once.\<close>

record promise =
  promise_value :: "Status option"
  future_retrieved :: bool

definition promise_init :: promise where
  "promise_init = \<lparr>promise_value = None, future_retrieved = False\<rparr>"

definition get_future :: "promise \<Rightarrow> failure + promise" where
  "get_future p =
     (if future_retrieved p then Inl FutureAlreadyRetrieved
      else Inr (p\<lparr>future_retrieved := True\<rparr>))"

definition set_value :: "Status \<Rightarrow> promise \<Rightarrow> failure + promise" where
  "set_value st p =
     (if promise_value p \<noteq> None then Inl PromiseAlreadySatisfied
      else Inr (p\<lparr>promise_value := Some st\<rparr>))"

text \<open>\<^verbatim>\<open>future.get()\<close> returns the value once there is one, and blocks until then.\<close>

definition future_get :: "promise \<Rightarrow> failure + Status" where
  "future_get p = (case promise_value p of None \<Rightarrow> Inl BlockedForever | Some st \<Rightarrow> Inr st)"

text \<open>
  Modelled from the spec: \<^verbatim>\<open>rpc::Poller\<close> (yb/rpc/poller.h is not among the sources).
  "\<^verbatim>\<open>Start(schedulerHandle, period)\<close> arms repeating invocation of a supplied callback;
  \<^verbatim>\<open>Shutdown()\<close> stops it and blocks until no further invocation will occur", and
  \<^verbatim>\<open>Shutdown\<close> "safely no-ops" on a poller that was never started. The callback is
  \<^verbatim>\<open>std::bind(&Impl::Heartbeat, this, false)\<close>: the record keeps the argument it binds.
  The period is the value of the expression \<^verbatim>\<open>Start\<close> passes, a uint64 count of
  milliseconds.
\<close>

datatype poller_state = Idle | Armed Scheduler uint64 | Stopped

record Poller =
  callback_create :: bool
  poller_state :: poller_state

definition Poller_init :: "bool \<Rightarrow> Poller" where
  "Poller_init create = \<lparr>callback_create = create, poller_state = Idle\<rparr>"

definition Poller_Start :: "Scheduler \<Rightarrow> uint64 \<Rightarrow> Poller \<Rightarrow> Poller" where
  "Poller_Start scheduler period p = p\<lparr>poller_state := Armed scheduler period\<rparr>"

definition Poller_Shutdown :: "Poller \<Rightarrow> Poller" where
  "Poller_Shutdown p = p\<lparr>poller_state := Stopped\<rparr>"

subsection \<open>The object and what it has done\<close>

record Impl =
  proxy :: "PgClientServiceProxy option"  \<comment> \<open>\<^verbatim>\<open>std::unique_ptr\<close>: \<open>None\<close> is null\<close>
  controller :: RpcController
  session_id :: uint64
  heartbeat_poller :: Poller
  heartbeat_running :: bool  \<comment> \<open>\<^verbatim>\<open>std::atomic<bool>\<close>\<close>
  heartbeat_controller :: RpcController
  heartbeat_resp :: PgHeartbeatResponsePB
  create_session_promise :: promise

text \<open>
  A heartbeat call the proxy has accepted and not completed: the request, and the
  \<^verbatim>\<open>create\<close> its completion handler captured.
\<close>

record heartbeat_call =
  hc_req :: PgHeartbeatRequestPB
  hc_create :: bool

record world = Impl +
  glog :: "log_line list"  \<comment> \<open>the lines logged, oldest first\<close>
  sent :: "(rpc_request \<times> RpcController) list"
    \<comment> \<open>every request handed to the proxy, with the controller as it was then\<close>
  wire :: "heartbeat_call list"  \<comment> \<open>the heartbeat calls outstanding\<close>

text \<open>
  The constructor: \<^verbatim>\<open>session_id_ = RandomUniformInt<uint64_t>()\<close>, so the id is a
  parameter here; the poller is bound to \<^verbatim>\<open>Heartbeat(false)\<close>; nothing has happened yet.
\<close>

definition Impl_init :: "uint64 \<Rightarrow> world" where
  "Impl_init sid =
     \<lparr>proxy = None,
      controller = RpcController_init,
      session_id = sid,
      heartbeat_poller = Poller_init False,
      heartbeat_running = False,
      heartbeat_controller = RpcController_init,
      heartbeat_resp = \<lparr>resp_status = None, resp_fields = ()\<rparr>,
      create_session_promise = promise_init,
      glog = [], sent = [], wire = []\<rparr>"

text \<open>The destructor: \<^verbatim>\<open>CHECK(!proxy_)\<close>.\<close>

definition Impl_destroy :: "world \<Rightarrow> failure + unit" where
  "Impl_destroy w = (if proxy w \<noteq> None then Inl CheckFailed else Inr ())"

subsection \<open>Preparing the controllers\<close>

text \<open>
  \<^verbatim>\<open>PrepareAdminController(deadline = CoarseTimePoint())\<close> resets \<^verbatim>\<open>controller_\<close> and
  sets it up; the pointer it returns is to \<^verbatim>\<open>controller_\<close> of the state it returns.
\<close>

definition PrepareAdminController :: "flags \<Rightarrow> CoarseTimePoint \<Rightarrow> world \<Rightarrow> world" where
  "PrepareAdminController fl deadline w =
     w\<lparr>controller := SetupAdminController fl (Reset (controller w)) deadline\<rparr>"

text \<open>
  \<^verbatim>\<open>PrepareHeartbeatController()\<close>, with the reading of \<^verbatim>\<open>CoarseMonoClock::now()\<close> it
  takes.
\<close>

definition PrepareHeartbeatController :: "flags \<Rightarrow> CoarseTimePoint \<Rightarrow> world \<Rightarrow> world" where
  "PrepareHeartbeatController fl now w =
     w\<lparr>heartbeat_controller :=
         SetupAdminController fl (Reset (heartbeat_controller w)) (heartbeat_deadline fl now)\<rparr>"

subsection \<open>Calls through the proxy\<close>

text \<open>
  Modelled from the spec: the methods of \<^verbatim>\<open>tserver::PgClientServiceProxy\<close>
  (pg_client.proxy.h is generated and not among the sources). The transport "exposes one
  asynchronous method per remote operation, each accepting (request, response-buffer,
  call-context, completion-callback) and invoking the completion callback exactly once";
  a synchronous method returns the transport's status and fills the response. A call
  through a null \<^verbatim>\<open>proxy_\<close> does not return.
\<close>

definition proxy_call :: "rpc_request \<Rightarrow> RpcController \<Rightarrow> world \<Rightarrow> failure + world" where
  "proxy_call req c w =
     (case proxy w of
        None \<Rightarrow> Inl NullProxyDereferenced
      | Some p \<Rightarrow> Inr (w\<lparr>sent := sent w @ [(req, c)]\<rparr>))"

definition HeartbeatAsync ::
    "PgHeartbeatRequestPB \<Rightarrow> RpcController \<Rightarrow> bool \<Rightarrow> world \<Rightarrow> failure + world" where
  "HeartbeatAsync req c create w =
     (case proxy_call (HeartbeatReq req) c w of
        Inl e \<Rightarrow> Inl e
      | Inr w' \<Rightarrow> Inr (w'\<lparr>wire := wire w' @ [\<lparr>hc_req = req, hc_create = create\<rparr>]\<rparr>))"

subsection \<open>Heartbeat\<close>

text \<open>
  \<^verbatim>\<open>heartbeat_running_.compare_exchange_strong(expected, true)\<close> on the atomic flag \<open>a\<close>:
  whether it succeeded, and the flag afterwards.
\<close>

definition compare_exchange_strong :: "bool \<Rightarrow> bool \<Rightarrow> bool \<Rightarrow> bool \<times> bool" where
  "compare_exchange_strong a expected desired =
     (if a = expected then (True, desired) else (False, a))"

text \<open>
  The completion handler, the lambda that captures \<^verbatim>\<open>create\<close>: it reads the status of
  \<^verbatim>\<open>heartbeat_resp_\<close>, clears the flag, and settles the promise or logs.
\<close>

definition Heartbeat_completed :: "bool \<Rightarrow> world \<Rightarrow> failure + world" where
  "Heartbeat_completed create w =
     (let status = ResponseStatus (heartbeat_resp w);
          w1 = w\<lparr>heartbeat_running := False\<rparr>
      in if create then
           (case set_value status (create_session_promise w1) of
              Inl e \<Rightarrow> Inl e
            | Inr p \<Rightarrow> Inr (w1\<lparr>create_session_promise := p\<rparr>))
         else if \<not> ok status then
           Inr (w1\<lparr>glog := glog w1 @
                      [LogLine WARNING ''Heartbeat failed: '' (StreamedStatus status)]\<rparr>)
         else Inr w1)"

text \<open>
  The body of \<^verbatim>\<open>Heartbeat\<close> after the flag is taken: the request with \<^verbatim>\<open>create\<close> and
  the session id, the heartbeat controller, the asynchronous call.
\<close>

definition Heartbeat_send :: "flags \<Rightarrow> CoarseTimePoint \<Rightarrow> bool \<Rightarrow> world \<Rightarrow> failure + world" where
  "Heartbeat_send fl now create w =
     (let req = PgHeartbeatRequestPB_init\<lparr>hb_create := Some create,
                                          hb_session_id := Some (session_id w)\<rparr>;
          w1 = PrepareHeartbeatController fl now w
      in HeartbeatAsync req (heartbeat_controller w1) create w1)"

text \<open>
  The guard at the head of \<^verbatim>\<open>Heartbeat\<close>: one compare-exchange on the flag; when it
  fails the line is logged and \<^verbatim>\<open>Heartbeat\<close> returns. \<^verbatim>\<open>LOG(DFATAL)\<close> is kept as a
  line of that severity, followed by the \<^verbatim>\<open>return\<close> the source has. The result says
  whether \<^verbatim>\<open>Heartbeat\<close> goes on.
\<close>

definition Heartbeat_guard :: "world \<Rightarrow> bool \<times> world" where
  "Heartbeat_guard w =
     (case compare_exchange_strong (heartbeat_running w) False True of
        (False, r) \<Rightarrow>
          (False, w\<lparr>heartbeat_running := r,
                    glog := glog w @ [LogLine DFATAL ''Heartbeat did not complete yet'' Nothing]\<rparr>)
      | (True, r) \<Rightarrow> (True, w\<lparr>heartbeat_running := r\<rparr>))"

text \<open>\<^verbatim>\<open>Heartbeat(create)\<close>: the guard, then the rest of the body.\<close>

definition Heartbeat :: "flags \<Rightarrow> CoarseTimePoint \<Rightarrow> bool \<Rightarrow> world \<Rightarrow> failure + world" where
  "Heartbeat fl now create w =
     (case Heartbeat_guard w of
        (False, w1) \<Rightarrow> Inr w1
      | (True, w1) \<Rightarrow> Heartbeat_send fl now create w1)"

text \<open>
  Modelled from the spec: the transport's side of \<^verbatim>\<open>HeartbeatAsync\<close> (not among the
  sources), "invoking the completion callback exactly once, either on success (response
  populated) or on failure". The transport completes the oldest outstanding heartbeat
  call: the response is in \<^verbatim>\<open>heartbeat_resp_\<close> (the buffer the call was given) and the
  completion handler runs. With no call outstanding nothing happens.
\<close>

definition HeartbeatAsync_complete :: "PgHeartbeatResponsePB \<Rightarrow> world \<Rightarrow> failure + world" where
  "HeartbeatAsync_complete resp w =
     (case wire w of
        [] \<Rightarrow> Inr w
      | c # cs \<Rightarrow> Heartbeat_completed (hc_create c) (w\<lparr>heartbeat_resp := resp, wire := cs\<rparr>))"

subsection \<open>Start, Shutdown\<close>

text \<open>
  \<^verbatim>\<open>Start(proxy_cache, scheduler, tserver_shared_object)\<close>. Between \<^verbatim>\<open>Heartbeat(true)\<close>
  and the return of \<^verbatim>\<open>future.get()\<close> the transport completes the call with the response
  \<open>resp\<close> of the tablet server; \<open>now\<close> is the clock's reading in the heartbeat.
  \<^verbatim>\<open>RETURN_NOT_OK\<close> returns a status that is not OK as it is.
  \<^verbatim>\<open>CHECK_NOTNULL(&tserver_shared_object)\<close> is on the address of a reference and
  always passes; the shared object is given by the data it points to.
\<close>

definition Start ::
    "flags \<Rightarrow> CoarseTimePoint \<Rightarrow> ProxyCache \<Rightarrow> Scheduler \<Rightarrow> TServerSharedData \<Rightarrow>
     PgHeartbeatResponsePB \<Rightarrow> world \<Rightarrow> failure + (Status \<times> world)" where
  "Start fl now proxy_cache scheduler tserver_shared_data resp w =
     (let (host_port, resolve_cache_timeout) =
            (if FLAGS_use_node_hostname_for_local_tserver fl
             then (\<lparr>hp_host = host tserver_shared_data,
                     hp_port = port (endpoint tserver_shared_data)\<rparr>, kMax)
             else (\<lparr>hp_host = address (endpoint tserver_shared_data),
                     hp_port = port (endpoint tserver_shared_data)\<rparr>, Uninitialized));
          w1 = w\<lparr>glog := glog w @
                     [LogLine INFO ''Using TServer host_port: '' (StreamedHostPort host_port)]\<rparr>;
          w2 = w1\<lparr>proxy := Some \<lparr>proxy_cache_of = proxy_cache, remote = host_port,
                                  resolve_cache_timeout_of = resolve_cache_timeout\<rparr>\<rparr>
      in case get_future (create_session_promise w2) of
           Inl e \<Rightarrow> Inl e
         | Inr p \<Rightarrow>
        (case Heartbeat fl now True (w2\<lparr>create_session_promise := p\<rparr>) of
           Inl e \<Rightarrow> Inl e
         | Inr w3 \<Rightarrow>
        (case HeartbeatAsync_complete resp w3 of
           Inl e \<Rightarrow> Inl e
         | Inr w4 \<Rightarrow>
        (case future_get (create_session_promise w4) of
           Inl e \<Rightarrow> Inl e
         | Inr st \<Rightarrow>
             if \<not> ok st then Inr (st, w4)
             else Inr (OK, w4\<lparr>heartbeat_poller :=
                                 Poller_Start scheduler (heartbeat_period_ms fl)
                                   (heartbeat_poller w4)\<rparr>)))))"

text \<open>\<^verbatim>\<open>Shutdown()\<close>: the poller first, then the proxy.\<close>

definition Shutdown :: "world \<Rightarrow> world" where
  "Shutdown w =
     (let w1 = w\<lparr>heartbeat_poller := Poller_Shutdown (heartbeat_poller w)\<rparr>
      in w1\<lparr>proxy := None\<rparr>)"

subsection \<open>The operations\<close>

text \<open>
  Each operation prepares \<^verbatim>\<open>controller_\<close>, calls the proxy's synchronous method and
  reads the answer. The answer of the tablet server is the argument \<open>reply\<close>: the status
  the proxy's method returns and the response it fills. \<^verbatim>\<open>Result<T>\<close> is \<open>Status + T\<close>.
  \<^verbatim>\<open>AlterTable\<close>, \<^verbatim>\<open>CreateDatabase\<close> and \<^verbatim>\<open>CreateTable\<close> write the session id into
  the caller's request, which they return with the status.
\<close>

definition AlterTable ::
    "flags \<Rightarrow> PgAlterTableRequestPB \<Rightarrow> CoarseTimePoint \<Rightarrow> Status \<times> unit ResponsePB \<Rightarrow>
     world \<Rightarrow> failure + (Status \<times> PgAlterTableRequestPB \<times> world)" where
  "AlterTable fl req deadline reply w =
     (let req1 = req\<lparr>req_session_id := Some (session_id w)\<rparr>;
          w1 = PrepareAdminController fl deadline w
      in case proxy_call (AlterTableReq req1) (controller w1) w1 of
           Inl e \<Rightarrow> Inl e
         | Inr w2 \<Rightarrow>
             if \<not> ok (fst reply) then Inr (fst reply, req1, w2)
             else Inr (ResponseStatus (snd reply), req1, w2))"

definition CreateDatabase ::
    "flags \<Rightarrow> PgCreateDatabaseRequestPB \<Rightarrow> CoarseTimePoint \<Rightarrow> Status \<times> unit ResponsePB \<Rightarrow>
     world \<Rightarrow> failure + (Status \<times> PgCreateDatabaseRequestPB \<times> world)" where
  "CreateDatabase fl req deadline reply w =
     (let req1 = req\<lparr>req_session_id := Some (session_id w)\<rparr>;
          w1 = PrepareAdminController fl deadline w
      in case proxy_call (CreateDatabaseReq req1) (controller w1) w1 of
           Inl e \<Rightarrow> Inl e
         | Inr w2 \<Rightarrow>
             if \<not> ok (fst reply) then Inr (fst reply, req1, w2)
             else Inr (ResponseStatus (snd reply), req1, w2))"

definition CreateTable ::
    "flags \<Rightarrow> PgCreateTableRequestPB \<Rightarrow> CoarseTimePoint \<Rightarrow> Status \<times> unit ResponsePB \<Rightarrow>
     world \<Rightarrow> failure + (Status \<times> PgCreateTableRequestPB \<times> world)" where
  "CreateTable fl req deadline reply w =
     (let req1 = req\<lparr>req_session_id := Some (session_id w)\<rparr>;
          w1 = PrepareAdminController fl deadline w
      in case proxy_call (CreateTableReq req1) (controller w1) w1 of
           Inl e \<Rightarrow> Inl e
         | Inr w2 \<Rightarrow>
             if \<not> ok (fst reply) then Inr (fst reply, req1, w2)
             else Inr (ResponseStatus (snd reply), req1, w2))"

text \<open>
  \<^verbatim>\<open>OpenTable(table_id)\<close>: \<open>table_id\<close> is the string \<^verbatim>\<open>table_id.GetYBTableId()\<close> gives;
  \<^verbatim>\<open>client::CreateTableInfoFromTableSchemaResp\<close> (not among the sources) is the
  parameter \<open>table_info\<close>, a status or the table's info. The descriptor returned is the
  info with the partition list.
\<close>

record 'i PgTableDesc =
  desc_info :: 'i
  desc_partitions :: TablePartitionListPB

definition OpenTable ::
    "flags \<Rightarrow> (string \<Rightarrow> Status + 'i) \<Rightarrow> string \<Rightarrow> Status \<times> OpenTableFields ResponsePB \<Rightarrow>
     world \<Rightarrow> failure + ((Status + 'i PgTableDesc) \<times> world)" where
  "OpenTable fl table_info table_id reply w =
     (let req = \<lparr>open_table_id = Some table_id\<rparr>;
          w1 = PrepareAdminController fl CoarseTimePoint_init w
      in case proxy_call (OpenTableReq req) (controller w1) w1 of
           Inl e \<Rightarrow> Inl e
         | Inr w2 \<Rightarrow>
             if \<not> ok (fst reply) then Inr (Inl (fst reply), w2)
             else if \<not> ok (ResponseStatus (snd reply)) then Inr (Inl (ResponseStatus (snd reply)), w2)
             else (case table_info (open_info (resp_fields (snd reply))) of
                     Inl st \<Rightarrow> Inr (Inl st, w2)
                   | Inr info \<Rightarrow>
                       Inr (Inr \<lparr>desc_info = info,
                                 desc_partitions =
                                   \<lparr>partitions_version =
                                      partitions_version (open_partitions (resp_fields (snd reply))),
                                    partitions_keys =
                                      partitions_keys (open_partitions (resp_fields (snd reply)))\<rparr>\<rparr>,
                            w2)))"

definition GetDatabaseInfo ::
    "flags \<Rightarrow> uint32 \<Rightarrow> Status \<times> 'n ResponsePB \<Rightarrow> world \<Rightarrow>
     failure + ((Status + 'n) \<times> world)" where
  "GetDatabaseInfo fl oid reply w =
     (let req = \<lparr>info_oid = Some oid\<rparr>;
          w1 = PrepareAdminController fl CoarseTimePoint_init w
      in case proxy_call (GetDatabaseInfoReq req) (controller w1) w1 of
           Inl e \<Rightarrow> Inl e
         | Inr w2 \<Rightarrow>
             if \<not> ok (fst reply) then Inr (Inl (fst reply), w2)
             else if \<not> ok (ResponseStatus (snd reply)) then Inr (Inl (ResponseStatus (snd reply)), w2)
             else Inr (Inr (resp_fields (snd reply)), w2))"

definition ReserveOids ::
    "flags \<Rightarrow> uint32 \<Rightarrow> uint32 \<Rightarrow> uint32 \<Rightarrow> Status \<times> ReserveOidsFields ResponsePB \<Rightarrow>
     world \<Rightarrow> failure + ((Status + uint32 \<times> uint32) \<times> world)" where
  "ReserveOids fl database_oid next_oid count reply w =
     (let req = \<lparr>reserve_database_oid = Some database_oid,
                 reserve_next_oid = Some next_oid,
                 reserve_count = Some count\<rparr>;
          w1 = PrepareAdminController fl CoarseTimePoint_init w
      in case proxy_call (ReserveOidsReq req) (controller w1) w1 of
           Inl e \<Rightarrow> Inl e
         | Inr w2 \<Rightarrow>
             if \<not> ok (fst reply) then Inr (Inl (fst reply), w2)
             else if \<not> ok (ResponseStatus (snd reply)) then Inr (Inl (ResponseStatus (snd reply)), w2)
             else Inr (Inr (begin_oid (resp_fields (snd reply)), end_oid (resp_fields (snd reply))),
                       w2))"

definition IsInitDbDone ::
    "flags \<Rightarrow> Status \<times> bool ResponsePB \<Rightarrow> world \<Rightarrow> failure + ((Status + bool) \<times> world)" where
  "IsInitDbDone fl reply w =
     (let w1 = PrepareAdminController fl CoarseTimePoint_init w
      in case proxy_call IsInitDbDoneReq (controller w1) w1 of
           Inl e \<Rightarrow> Inl e
         | Inr w2 \<Rightarrow>
             if \<not> ok (fst reply) then Inr (Inl (fst reply), w2)
             else if \<not> ok (ResponseStatus (snd reply)) then Inr (Inl (ResponseStatus (snd reply)), w2)
             else Inr (Inr (resp_fields (snd reply)), w2))"

subsection \<open>The public operations, as calls\<close>

text \<open>
  The calls \<^verbatim>\<open>PgClient\<close> forwards to the object, each with the answer of the tablet
  server it meets, and the state each leaves.
\<close>

datatype operation =
    CallAlterTable PgAlterTableRequestPB CoarseTimePoint "Status \<times> unit ResponsePB"
  | CallCreateDatabase PgCreateDatabaseRequestPB CoarseTimePoint "Status \<times> unit ResponsePB"
  | CallCreateTable PgCreateTableRequestPB CoarseTimePoint "Status \<times> unit ResponsePB"
  | CallOpenTable string "Status \<times> OpenTableFields ResponsePB"
  | CallGetDatabaseInfo uint32 "Status \<times> string ResponsePB"
  | CallReserveOids uint32 uint32 uint32 "Status \<times> ReserveOidsFields ResponsePB"
  | CallIsInitDbDone "Status \<times> bool ResponsePB"

fun PgClient_call ::
    "flags \<Rightarrow> (string \<Rightarrow> Status + string) \<Rightarrow> operation \<Rightarrow> world \<Rightarrow> failure + world" where
  "PgClient_call fl ti (CallAlterTable req deadline reply) w =
     (case AlterTable fl req deadline reply w of Inl e \<Rightarrow> Inl e | Inr (st, req1, w1) \<Rightarrow> Inr w1)"
| "PgClient_call fl ti (CallCreateDatabase req deadline reply) w =
     (case CreateDatabase fl req deadline reply w of Inl e \<Rightarrow> Inl e | Inr (st, req1, w1) \<Rightarrow> Inr w1)"
| "PgClient_call fl ti (CallCreateTable req deadline reply) w =
     (case CreateTable fl req deadline reply w of Inl e \<Rightarrow> Inl e | Inr (st, req1, w1) \<Rightarrow> Inr w1)"
| "PgClient_call fl ti (CallOpenTable table_id reply) w =
     (case OpenTable fl ti table_id reply w of Inl e \<Rightarrow> Inl e | Inr (res, w1) \<Rightarrow> Inr w1)"
| "PgClient_call fl ti (CallGetDatabaseInfo oid reply) w =
     (case GetDatabaseInfo fl oid reply w of Inl e \<Rightarrow> Inl e | Inr (res, w1) \<Rightarrow> Inr w1)"
| "PgClient_call fl ti (CallReserveOids database_oid next_oid n reply) w =
     (case ReserveOids fl database_oid next_oid n reply w of
        Inl e \<Rightarrow> Inl e | Inr (res, w1) \<Rightarrow> Inr w1)"
| "PgClient_call fl ti (CallIsInitDbDone reply) w =
     (case IsInitDbDone fl reply w of Inl e \<Rightarrow> Inl e | Inr (res, w1) \<Rightarrow> Inr w1)"

text \<open>
  The deadline a call supplies: the three operations that take one pass it on, and
  \<^verbatim>\<open>CoarseTimePoint()\<close>, the default of the parameter, stands for none.
\<close>

fun explicit_deadline :: "operation \<Rightarrow> CoarseTimePoint option" where
  "explicit_deadline (CallAlterTable req deadline reply) =
     (if deadline = CoarseTimePoint_init then None else Some deadline)"
| "explicit_deadline (CallCreateDatabase req deadline reply) =
     (if deadline = CoarseTimePoint_init then None else Some deadline)"
| "explicit_deadline (CallCreateTable req deadline reply) =
     (if deadline = CoarseTimePoint_init then None else Some deadline)"
| "explicit_deadline (CallOpenTable table_id reply) = None"
| "explicit_deadline (CallGetDatabaseInfo oid reply) = None"
| "explicit_deadline (CallReserveOids database_oid next_oid n reply) = None"
| "explicit_deadline (CallIsInitDbDone reply) = None"

text \<open>Which requests the file stamps with the session id: the four that have the field.\<close>

fun stamped :: "rpc_request \<Rightarrow> bool" where
  "stamped (HeartbeatReq r) = True"
| "stamped (AlterTableReq r) = True"
| "stamped (CreateDatabaseReq r) = True"
| "stamped (CreateTableReq r) = True"
| "stamped (OpenTableReq r) = False"
| "stamped (GetDatabaseInfoReq r) = False"
| "stamped (ReserveOidsReq r) = False"
| "stamped IsInitDbDoneReq = False"

subsection \<open>The object among its threads\<close>

text \<open>
  The caller's thread runs \<^verbatim>\<open>Start\<close>, the operations and \<^verbatim>\<open>Shutdown\<close>; the poller runs
  its callback, \<^verbatim>\<open>Heartbeat(false)\<close>, on the scheduler's thread; the transport runs the
  completion handler on its own. A configuration is the object with the invocations of
  the poller's callback that have begun and not returned (each before its
  compare-exchange or before its \<^verbatim>\<open>HeartbeatAsync\<close>) and the place \<^verbatim>\<open>Shutdown\<close> has
  reached. A step is one atomic part of one of them.

  Modelled from the spec: the poller's side of the steps (yb/rpc/poller.h is not among
  the sources). An armed poller may invoke its callback at any moment; a stopped or idle
  one never does; \<^verbatim>\<open>heartbeat_poller_.Shutdown()\<close> stops it at once and returns when no
  invocation is in progress ("blocks until no further invocation will occur").
\<close>

datatype tick_pc = AtCompareExchange | AtHeartbeatAsync

datatype shutdown_pc = NotCalled | PollerShutdownEntered | PollerShutdownReturned | ProxyReleased

record sys =
  obj :: world
  ticks :: "tick_pc list"
  shutdown_at :: shutdown_pc

definition sys_of :: "world \<Rightarrow> sys" where
  "sys_of w = \<lparr>obj = w, ticks = [], shutdown_at = NotCalled\<rparr>"

datatype event =
    TickBegins  \<comment> \<open>the poller invokes its callback\<close>
  | TickFindsFlagSet  \<comment> \<open>the guard fails: the line is logged, the callback returns\<close>
  | TickTakesFlag  \<comment> \<open>the guard succeeds\<close>
  | TickSends CoarseTimePoint  \<comment> \<open>\<^verbatim>\<open>HeartbeatAsync\<close> is called, the callback returns\<close>
  | CallCompletes PgHeartbeatResponsePB  \<comment> \<open>the completion handler runs\<close>
  | Operation operation  \<comment> \<open>the caller runs one operation\<close>
  | ShutdownStopsPoller  \<comment> \<open>\<^verbatim>\<open>heartbeat_poller_.Shutdown()\<close> is entered\<close>
  | ShutdownPollerStopped  \<comment> \<open>\<^verbatim>\<open>heartbeat_poller_.Shutdown()\<close> returns\<close>
  | ShutdownReleasesProxy  \<comment> \<open>\<^verbatim>\<open>proxy_ = nullptr\<close>, and \<^verbatim>\<open>Shutdown\<close> returns\<close>

fun is_tick_event :: "event \<Rightarrow> bool" where
  "is_tick_event TickBegins = True"
| "is_tick_event TickFindsFlagSet = True"
| "is_tick_event TickTakesFlag = True"
| "is_tick_event (TickSends now) = True"
| "is_tick_event (CallCompletes resp) = False"
| "is_tick_event (Operation op) = False"
| "is_tick_event ShutdownStopsPoller = False"
| "is_tick_event ShutdownPollerStopped = False"
| "is_tick_event ShutdownReleasesProxy = False"

inductive step ::
    "flags \<Rightarrow> (string \<Rightarrow> Status + string) \<Rightarrow> sys \<Rightarrow> event \<Rightarrow> sys \<Rightarrow> bool" where
  tick_begins:
    "poller_state (heartbeat_poller (obj c)) = Armed scheduler period \<Longrightarrow>
     step fl ti c TickBegins (c\<lparr>ticks := AtCompareExchange # ticks c\<rparr>)"
| tick_finds_flag_set:
    "AtCompareExchange \<in> set (ticks c) \<Longrightarrow> Heartbeat_guard (obj c) = (False, w) \<Longrightarrow>
     step fl ti c TickFindsFlagSet (c\<lparr>obj := w, ticks := remove1 AtCompareExchange (ticks c)\<rparr>)"
| tick_takes_flag:
    "AtCompareExchange \<in> set (ticks c) \<Longrightarrow> Heartbeat_guard (obj c) = (True, w) \<Longrightarrow>
     step fl ti c TickTakesFlag
       (c\<lparr>obj := w, ticks := AtHeartbeatAsync # remove1 AtCompareExchange (ticks c)\<rparr>)"
| tick_sends:
    "AtHeartbeatAsync \<in> set (ticks c) \<Longrightarrow>
     Heartbeat_send fl now (callback_create (heartbeat_poller (obj c))) (obj c) = Inr w \<Longrightarrow>
     step fl ti c (TickSends now) (c\<lparr>obj := w, ticks := remove1 AtHeartbeatAsync (ticks c)\<rparr>)"
| call_completes:
    "wire (obj c) \<noteq> [] \<Longrightarrow> HeartbeatAsync_complete resp (obj c) = Inr w \<Longrightarrow>
     step fl ti c (CallCompletes resp) (c\<lparr>obj := w\<rparr>)"
| operation:
    "PgClient_call fl ti op (obj c) = Inr w \<Longrightarrow>
     step fl ti c (Operation op) (c\<lparr>obj := w\<rparr>)"
| shutdown_stops_poller:
    "shutdown_at c = NotCalled \<Longrightarrow>
     step fl ti c ShutdownStopsPoller
       (c\<lparr>obj := (obj c)\<lparr>heartbeat_poller := Poller_Shutdown (heartbeat_poller (obj c))\<rparr>,
          shutdown_at := PollerShutdownEntered\<rparr>)"
| shutdown_poller_stopped:
    "shutdown_at c = PollerShutdownEntered \<Longrightarrow> ticks c = [] \<Longrightarrow>
     step fl ti c ShutdownPollerStopped (c\<lparr>shutdown_at := PollerShutdownReturned\<rparr>)"
| shutdown_releases_proxy:
    "shutdown_at c = PollerShutdownReturned \<Longrightarrow>
     step fl ti c ShutdownReleasesProxy
       (c\<lparr>obj := (obj c)\<lparr>proxy := None\<rparr>, shutdown_at := ProxyReleased\<rparr>)"

text \<open>
  The configurations a client constructed with the session id \<open>sid\<close> can reach: the
  constructed object, the object as its \<^verbatim>\<open>Start\<close> returns it (whatever the status), and
  every step from there.
\<close>

inductive reachable ::
    "flags \<Rightarrow> (string \<Rightarrow> Status + string) \<Rightarrow> uint64 \<Rightarrow> sys \<Rightarrow> bool" where
  constructed:
    "reachable fl ti sid (sys_of (Impl_init sid))"
| started:
    "Start fl now proxy_cache scheduler tserver_shared_data resp (Impl_init sid) = Inr (st, w) \<Longrightarrow>
     reachable fl ti sid (sys_of w)"
| stepped:
    "reachable fl ti sid c \<Longrightarrow> step fl ti c e c' \<Longrightarrow> reachable fl ti sid c'"

text \<open>A run: the events of a sequence of steps, in order.\<close>

inductive run ::
    "flags \<Rightarrow> (string \<Rightarrow> Status + string) \<Rightarrow> sys \<Rightarrow> event list \<Rightarrow> sys \<Rightarrow> bool" where
  run_nil: "run fl ti c [] c"
| run_cons: "step fl ti c e c1 \<Longrightarrow> run fl ti c1 es c2 \<Longrightarrow> run fl ti c (e # es) c2"

subsection \<open>Invariants of the reachable configurations\<close>

text \<open>
  The request an operation hands to the proxy, for a client whose session id is \<open>sid\<close>
  (\<open>PgClient_call_eq\<close> below shows it is the one the operations above send).
\<close>

fun request_of :: "uint64 \<Rightarrow> operation \<Rightarrow> rpc_request" where
  "request_of sid (CallAlterTable req deadline reply) =
     AlterTableReq (req\<lparr>req_session_id := Some sid\<rparr>)"
| "request_of sid (CallCreateDatabase req deadline reply) =
     CreateDatabaseReq (req\<lparr>req_session_id := Some sid\<rparr>)"
| "request_of sid (CallCreateTable req deadline reply) =
     CreateTableReq (req\<lparr>req_session_id := Some sid\<rparr>)"
| "request_of sid (CallOpenTable table_id reply) = OpenTableReq \<lparr>open_table_id = Some table_id\<rparr>"
| "request_of sid (CallGetDatabaseInfo oid reply) = GetDatabaseInfoReq \<lparr>info_oid = Some oid\<rparr>"
| "request_of sid (CallReserveOids database_oid next_oid n reply) =
     ReserveOidsReq \<lparr>reserve_database_oid = Some database_oid, reserve_next_oid = Some next_oid,
                     reserve_count = Some n\<rparr>"
| "request_of sid (CallIsInitDbDone reply) = IsInitDbDoneReq"

text \<open>
  Single flight: the callbacks that hold the flag and have not sent yet, and the calls
  outstanding, are one in all while the flag is set and none while it is clear.
\<close>

definition single_flight :: "sys \<Rightarrow> bool" where
  "single_flight c =
     (length (filter (\<lambda>t. t = AtHeartbeatAsync) (ticks c)) + length (wire (obj c)) =
        (if heartbeat_running (obj c) then 1 else 0))"

definition is_armed :: "Poller \<Rightarrow> bool" where
  "is_armed p = (case poller_state p of Armed s i \<Rightarrow> True | Idle \<Rightarrow> False | Stopped \<Rightarrow> False)"

text \<open>
  The order of the teardown: once \<^verbatim>\<open>Shutdown\<close> is entered the poller is stopped; once
  the poller's \<^verbatim>\<open>Shutdown\<close> has returned no callback is in progress; while the proxy is
  null no callback is in progress and the poller is not armed.
\<close>

definition teardown_ordered :: "sys \<Rightarrow> bool" where
  "teardown_ordered c =
     ((shutdown_at c \<noteq> NotCalled \<longrightarrow> poller_state (heartbeat_poller (obj c)) = Stopped) \<and>
      (shutdown_at c = PollerShutdownReturned \<or> shutdown_at c = ProxyReleased \<longrightarrow> ticks c = []) \<and>
      (proxy (obj c) = None \<longrightarrow> ticks c = [] \<and> \<not> is_armed (heartbeat_poller (obj c))) \<and>
      (shutdown_at c = ProxyReleased \<longrightarrow> proxy (obj c) = None) \<and>
      \<not> callback_create (heartbeat_poller (obj c)))"

text \<open>What the requests sent so far carry, for a client constructed with \<open>sid\<close>.\<close>

definition sent_stamped :: "uint64 \<Rightarrow> world \<Rightarrow> bool" where
  "sent_stamped sid w =
     (session_id w = sid \<and>
      list_all (\<lambda>(r, c). carried_session_id r = (if stamped r then Some sid else None)) (sent w))"

subsection \<open>Examples\<close>

definition example_shared :: TServerSharedData where
  "example_shared = \<lparr>endpoint = \<lparr>address = ''127.0.0.1'', port = 9100\<rparr>, host = ''node1''\<rparr>"

definition example_table_info :: "string \<Rightarrow> Status + string" where
  "example_table_info schema = Inr schema"

definition ok_response :: PgHeartbeatResponsePB where
  "ok_response = \<lparr>resp_status = None, resp_fields = ()\<rparr>"

text \<open>
  The client constructed with session id 7 and started at clock reading 5000, the tablet
  server answering the creation heartbeat without an error.
\<close>

definition example_started :: world where
  "example_started =
     \<lparr>proxy = Some \<lparr>proxy_cache_of = 0,
                    remote = \<lparr>hp_host = ''127.0.0.1'', hp_port = 9100\<rparr>,
                    resolve_cache_timeout_of = Uninitialized\<rparr>,
      controller = RpcController_init,
      session_id = 7,
      heartbeat_poller = \<lparr>callback_create = False, poller_state = Armed 0 9000\<rparr>,
      heartbeat_running = False,
      heartbeat_controller = \<lparr>bound = Some (Deadline 10000005000)\<rparr>,
      heartbeat_resp = ok_response,
      create_session_promise = \<lparr>promise_value = Some OK, future_retrieved = True\<rparr>,
      glog = [LogLine INFO ''Using TServer host_port: ''
                (StreamedHostPort \<lparr>hp_host = ''127.0.0.1'', hp_port = 9100\<rparr>)],
      sent = [(HeartbeatReq \<lparr>hb_create = Some True, hb_session_id = Some 7\<rparr>,
               \<lparr>bound = Some (Deadline 10000005000)\<rparr>)],
      wire = []\<rparr>"

text \<open>The same client with a periodic heartbeat outstanding, sent at clock reading 9005000.\<close>

definition example_in_flight :: world where
  "example_in_flight =
     example_started
       \<lparr>heartbeat_running := True,
        heartbeat_controller := \<lparr>bound = Some (Deadline 10009005000)\<rparr>,
        sent := sent example_started @
          [(HeartbeatReq \<lparr>hb_create = Some False, hb_session_id = Some 7\<rparr>,
            \<lparr>bound = Some (Deadline 10009005000)\<rparr>)],
        wire := [\<lparr>hc_req = \<lparr>hb_create = Some False, hb_session_id = Some 7\<rparr>,
                  hc_create = False\<rparr>]\<rparr>"

text \<open>
  The started client while a callback of the poller holds the flag and has not sent yet.
\<close>

definition example_mid_tick :: sys where
  "example_mid_tick =
     \<lparr>obj = example_started\<lparr>heartbeat_running := True\<rparr>, ticks = [AtHeartbeatAsync],
      shutdown_at = NotCalled\<rparr>"

text \<open>
  The client after \<^verbatim>\<open>Shutdown\<close> has returned with that heartbeat still outstanding, and
  after the transport has completed it then.
\<close>

definition example_released :: sys where
  "example_released =
     \<lparr>obj = Shutdown example_in_flight, ticks = [], shutdown_at = ProxyReleased\<rparr>"

definition example_settled :: sys where
  "example_settled =
     example_released\<lparr>obj := (Shutdown example_in_flight)\<lparr>heartbeat_running := False, wire := []\<rparr>\<rparr>"

text \<open>
  The started client after \<^verbatim>\<open>ReserveOids(1, 2, 3)\<close>, and the answer of the tablet server
  to it.
\<close>

definition reserve_reply :: "Status \<times> ReserveOidsFields ResponsePB" where
  "reserve_reply = (OK, \<lparr>resp_status = None, resp_fields = \<lparr>begin_oid = 2, end_oid = 5\<rparr>\<rparr>)"

definition example_reserved :: world where
  "example_reserved =
     example_started
       \<lparr>controller := \<lparr>bound = Some (Timeout (Nanoseconds 60000000000))\<rparr>,
        sent := sent example_started @
          [(ReserveOidsReq \<lparr>reserve_database_oid = Some 1, reserve_next_oid = Some 2,
                            reserve_count = Some 3\<rparr>,
            \<lparr>bound = Some (Timeout (Nanoseconds 60000000000))\<rparr>)]\<rparr>"

text \<open>The flags with a heartbeat interval of 100 ms.\<close>

definition short_interval_flags :: flags where
  "short_interval_flags = example_flags\<lparr>FLAGS_pg_client_heartbeat_interval_ms := 100\<rparr>"

section \<open>Proofs\<close>

subsection \<open>The controllers\<close>

lemma SetupAdminController_eq:
  "SetupAdminController fl c d =
     c\<lparr>bound := Some (if d \<noteq> CoarseTimePoint_init then Deadline d
                        else Timeout (admin_operation_timeout fl))\<rparr>"
  by (simp add: SetupAdminController_def set_deadline_def set_timeout_def)

lemma bound_SetupAdminController:
  "bound (SetupAdminController fl c d) =
     Some (if d \<noteq> CoarseTimePoint_init then Deadline d
           else Timeout (admin_operation_timeout fl))"
  by (simp add: SetupAdminController_eq)

subsection \<open>The parts of Heartbeat\<close>

lemma Heartbeat_guard_set:
  "heartbeat_running w \<Longrightarrow>
   Heartbeat_guard w =
     (False, w\<lparr>glog := glog w @ [LogLine DFATAL ''Heartbeat did not complete yet'' Nothing]\<rparr>)"
  by (simp add: Heartbeat_guard_def compare_exchange_strong_def)

lemma Heartbeat_guard_clear:
  "\<not> heartbeat_running w \<Longrightarrow> Heartbeat_guard w = (True, w\<lparr>heartbeat_running := True\<rparr>)"
  by (simp add: Heartbeat_guard_def compare_exchange_strong_def)

lemma Heartbeat_guard_fields:
  assumes "Heartbeat_guard w = (b, w')"
  shows "proxy w' = proxy w \<and> heartbeat_poller w' = heartbeat_poller w \<and> wire w' = wire w
         \<and> session_id w' = session_id w \<and> sent w' = sent w"
  using assms
  by (cases "heartbeat_running w") (auto simp: Heartbeat_guard_set Heartbeat_guard_clear)

lemma Heartbeat_send_eq:
  "proxy w = Some p \<Longrightarrow>
   Heartbeat_send fl now create w =
     Inr (w\<lparr>heartbeat_controller :=
              SetupAdminController fl (Reset (heartbeat_controller w)) (heartbeat_deadline fl now),
            sent := sent w @
              [(HeartbeatReq \<lparr>hb_create = Some create, hb_session_id = Some (session_id w)\<rparr>,
                SetupAdminController fl (Reset (heartbeat_controller w))
                  (heartbeat_deadline fl now))],
            wire := wire w @
              [\<lparr>hc_req = \<lparr>hb_create = Some create, hb_session_id = Some (session_id w)\<rparr>,
                hc_create = create\<rparr>]\<rparr>)"
  by (simp add: Heartbeat_send_def HeartbeatAsync_def proxy_call_def
      PrepareHeartbeatController_def PgHeartbeatRequestPB_init_def Let_def)

lemma Heartbeat_send_null:
  "proxy w = None \<Longrightarrow> Heartbeat_send fl now create w = Inl NullProxyDereferenced"
  by (simp add: Heartbeat_send_def HeartbeatAsync_def proxy_call_def
      PrepareHeartbeatController_def Let_def)

lemma Heartbeat_send_fields:
  assumes "Heartbeat_send fl now create w = Inr w'"
  shows "proxy w \<noteq> None \<and> proxy w' = proxy w \<and> heartbeat_running w' = heartbeat_running w
         \<and> length (wire w') = Suc (length (wire w))
         \<and> heartbeat_poller w' = heartbeat_poller w \<and> session_id w' = session_id w
         \<and> sent w' = sent w @
              [(HeartbeatReq \<lparr>hb_create = Some create, hb_session_id = Some (session_id w)\<rparr>,
                heartbeat_controller w')]"
proof (cases "proxy w")
  case None
  with assms show ?thesis by (simp add: Heartbeat_send_null)
next
  case (Some p)
  from assms have "w' = w\<lparr>heartbeat_controller :=
              SetupAdminController fl (Reset (heartbeat_controller w)) (heartbeat_deadline fl now),
            sent := sent w @
              [(HeartbeatReq \<lparr>hb_create = Some create, hb_session_id = Some (session_id w)\<rparr>,
                SetupAdminController fl (Reset (heartbeat_controller w))
                  (heartbeat_deadline fl now))],
            wire := wire w @
              [\<lparr>hc_req = \<lparr>hb_create = Some create, hb_session_id = Some (session_id w)\<rparr>,
                hc_create = create\<rparr>]\<rparr>"
    by (simp add: Heartbeat_send_eq[OF Some])
  with Some show ?thesis by simp
qed

lemma Heartbeat_completed_fields:
  assumes "Heartbeat_completed create w = Inr w'"
  shows "\<not> heartbeat_running w' \<and> wire w' = wire w \<and> proxy w' = proxy w
         \<and> heartbeat_poller w' = heartbeat_poller w \<and> session_id w' = session_id w
         \<and> sent w' = sent w"
  using assms
  by (auto simp: Heartbeat_completed_def set_value_def Let_def split: if_splits sum.splits)

lemma HeartbeatAsync_complete_fields:
  assumes "HeartbeatAsync_complete resp w = Inr w'"
  shows "proxy w' = proxy w \<and> heartbeat_poller w' = heartbeat_poller w
         \<and> session_id w' = session_id w \<and> sent w' = sent w"
proof (cases "wire w")
  case Nil
  with assms show ?thesis by (simp add: HeartbeatAsync_complete_def)
next
  case (Cons x xs)
  with assms
  have "Heartbeat_completed (hc_create x) (w\<lparr>heartbeat_resp := resp, wire := xs\<rparr>) = Inr w'"
    by (simp add: HeartbeatAsync_complete_def)
  from Heartbeat_completed_fields[OF this] show ?thesis by simp
qed

subsection \<open>The operations in closed form\<close>

lemma proxy_call_Some:
  "proxy w = Some p \<Longrightarrow> proxy_call req c w = Inr (w\<lparr>sent := sent w @ [(req, c)]\<rparr>)"
  by (simp add: proxy_call_def)

lemma PgClient_call_eq:
  assumes "proxy w = Some p"
  shows "PgClient_call fl ti op w =
           Inr (w\<lparr>controller :=
                    SetupAdminController fl (Reset (controller w))
                      (case explicit_deadline op of
                         None \<Rightarrow> CoarseTimePoint_init | Some d \<Rightarrow> d),
                  sent := sent w @
                    [(request_of (session_id w) op,
                      SetupAdminController fl (Reset (controller w))
                        (case explicit_deadline op of
                           None \<Rightarrow> CoarseTimePoint_init | Some d \<Rightarrow> d))]\<rparr>)"
proof (cases op)
  case (CallAlterTable req d reply)
  then show ?thesis using assms
    by (simp add: AlterTable_def proxy_call_Some PrepareAdminController_def Let_def)
next
  case (CallCreateDatabase req d reply)
  then show ?thesis using assms
    by (simp add: CreateDatabase_def proxy_call_Some PrepareAdminController_def Let_def)
next
  case (CallCreateTable req d reply)
  then show ?thesis using assms
    by (simp add: CreateTable_def proxy_call_Some PrepareAdminController_def Let_def)
next
  case (CallOpenTable t reply)
  then show ?thesis using assms
    by (simp add: OpenTable_def proxy_call_Some PrepareAdminController_def Let_def
        split: sum.split)
next
  case (CallGetDatabaseInfo oid reply)
  then show ?thesis using assms
    by (simp add: GetDatabaseInfo_def proxy_call_Some PrepareAdminController_def Let_def)
next
  case (CallReserveOids a b n reply)
  then show ?thesis using assms
    by (simp add: ReserveOids_def proxy_call_Some PrepareAdminController_def Let_def)
next
  case (CallIsInitDbDone reply)
  then show ?thesis using assms
    by (simp add: IsInitDbDone_def proxy_call_Some PrepareAdminController_def Let_def)
qed

lemma PgClient_call_null:
  assumes "proxy w = None"
  shows "PgClient_call fl ti op w = Inl NullProxyDereferenced"
  using assms
  by (cases op)
    (simp_all add: AlterTable_def CreateDatabase_def CreateTable_def OpenTable_def
      GetDatabaseInfo_def ReserveOids_def IsInitDbDone_def proxy_call_def
      PrepareAdminController_def Let_def)

lemma PgClient_call_fields:
  assumes "PgClient_call fl ti op w = Inr w'"
  shows "proxy w' = proxy w \<and> heartbeat_running w' = heartbeat_running w \<and> wire w' = wire w
         \<and> heartbeat_poller w' = heartbeat_poller w \<and> session_id w' = session_id w
         \<and> sent w' = sent w @ [(request_of (session_id w) op, controller w')]"
proof (cases "proxy w")
  case None
  with assms show ?thesis by (simp add: PgClient_call_null)
next
  case (Some p)
  from assms show ?thesis
    unfolding PgClient_call_eq[OF Some] by auto
qed

lemma carried_request_of:
  "carried_session_id (request_of sid op) =
     (if stamped (request_of sid op) then Some sid else None)"
  by (cases op) simp_all

subsection \<open>Start\<close>

lemma Start_facts:
  assumes "\<not> heartbeat_running w" and "wire w = []"
    and "promise_value (create_session_promise w) = None"
    and "\<not> future_retrieved (create_session_promise w)"
  shows "\<exists>w'. Start fl now pc sch sd resp w = Inr (ResponseStatus resp, w')
           \<and> proxy w' \<noteq> None \<and> wire w' = [] \<and> \<not> heartbeat_running w'
           \<and> session_id w' = session_id w
           \<and> heartbeat_poller w' =
               (if ok (ResponseStatus resp)
                then Poller_Start sch (heartbeat_period_ms fl) (heartbeat_poller w)
                else heartbeat_poller w)
           \<and> promise_value (create_session_promise w') = Some (ResponseStatus resp)
           \<and> sent w' = sent w @
               [(HeartbeatReq \<lparr>hb_create = Some True, hb_session_id = Some (session_id w)\<rparr>,
                 SetupAdminController fl (Reset (heartbeat_controller w))
                   (heartbeat_deadline fl now))]"
  using assms
  by (simp add: Start_def Heartbeat_def Heartbeat_guard_clear Heartbeat_send_eq get_future_def
      HeartbeatAsync_complete_def Heartbeat_completed_def set_value_def future_get_def Let_def
      ok_def split: prod.splits)

lemma Start_proxy:
  assumes "Start fl now pc sch sd resp w = Inr (st, w')"
  shows "proxy w' \<noteq> None"
proof -
  have a: "\<And>b v v'. Heartbeat_guard v = (b, v') \<Longrightarrow> proxy v' = proxy v"
    using Heartbeat_guard_fields by blast
  have b: "\<And>n cr v v'. Heartbeat_send fl n cr v = Inr v' \<Longrightarrow> proxy v' = proxy v"
    using Heartbeat_send_fields by blast
  have c: "\<And>v v'. HeartbeatAsync_complete resp v = Inr v' \<Longrightarrow> proxy v' = proxy v"
    using HeartbeatAsync_complete_fields by blast
  from assms show ?thesis
    by (auto simp: Start_def Heartbeat_def Let_def
        split: prod.splits sum.splits if_splits bool.splits dest!: a b c)
qed

lemma sys_of_simps:
  "obj (sys_of w) = w" "ticks (sys_of w) = []" "shutdown_at (sys_of w) = NotCalled"
  by (simp_all add: sys_of_def)

lemma Impl_init_simps:
  "proxy (Impl_init sid) = None" "\<not> heartbeat_running (Impl_init sid)"
  "wire (Impl_init sid) = []" "sent (Impl_init sid) = []" "session_id (Impl_init sid) = sid"
  "heartbeat_poller (Impl_init sid) = Poller_init False"
  "create_session_promise (Impl_init sid) = promise_init" "glog (Impl_init sid) = []"
  "heartbeat_controller (Impl_init sid) = RpcController_init"
  "controller (Impl_init sid) = RpcController_init"
  by (simp_all add: Impl_init_def)

lemma Start_init:
  "\<exists>w'. Start fl now pc sch sd resp (Impl_init sid) = Inr (ResponseStatus resp, w')
           \<and> proxy w' \<noteq> None \<and> wire w' = [] \<and> \<not> heartbeat_running w'
           \<and> session_id w' = sid
           \<and> heartbeat_poller w' =
               (if ok (ResponseStatus resp)
                then Poller_Start sch (heartbeat_period_ms fl) (Poller_init False)
                else Poller_init False)
           \<and> promise_value (create_session_promise w') = Some (ResponseStatus resp)
           \<and> sent w' =
               [(HeartbeatReq \<lparr>hb_create = Some True, hb_session_id = Some sid\<rparr>,
                 SetupAdminController fl (Reset RpcController_init)
                   (heartbeat_deadline fl now))]"
proof -
  have pre: "\<not> heartbeat_running (Impl_init sid)" "wire (Impl_init sid) = []"
    "promise_value (create_session_promise (Impl_init sid)) = None"
    "\<not> future_retrieved (create_session_promise (Impl_init sid))"
    by (simp_all add: Impl_init_simps promise_init_def)
  show ?thesis
    using Start_facts[OF pre, of fl now pc sch sd resp] unfolding Impl_init_simps by simp
qed

subsection \<open>Single flight\<close>

lemma filter_remove1_other:
  "x \<noteq> y \<Longrightarrow> filter (\<lambda>t. t = y) (remove1 x xs) = filter (\<lambda>t. t = y) xs"
  by (induction xs) auto

lemma length_filter_remove1_same:
  "y \<in> set xs \<Longrightarrow>
   Suc (length (filter (\<lambda>t. t = y) (remove1 y xs))) = length (filter (\<lambda>t. t = y) xs)"
  by (induction xs) auto

lemma step_single_flight:
  assumes "step fl ti c e c'" and "single_flight c"
  shows "single_flight c'"
  using assms
proof (cases rule: step.cases)
  case (tick_finds_flag_set w)
  then show ?thesis using assms(2)
    by (cases "heartbeat_running (obj c)")
       (auto simp: single_flight_def Heartbeat_guard_set Heartbeat_guard_clear
          filter_remove1_other)
next
  case (tick_takes_flag w)
  then show ?thesis using assms(2)
    by (cases "heartbeat_running (obj c)")
       (auto simp: single_flight_def Heartbeat_guard_set Heartbeat_guard_clear
          filter_remove1_other)
next
  case (tick_sends now w)
  from tick_sends(3)
  have n: "Suc (length (filter (\<lambda>t. t = AtHeartbeatAsync)
                  (remove1 AtHeartbeatAsync (ticks c))))
           = length (filter (\<lambda>t. t = AtHeartbeatAsync) (ticks c))"
    by (rule length_filter_remove1_same)
  from assms(2)
  have i: "length (filter (\<lambda>t. t = AtHeartbeatAsync) (ticks c)) + length (wire (obj c)) =
             (if heartbeat_running (obj c) then 1 else 0)"
    by (simp add: single_flight_def)
  from tick_sends(2) Heartbeat_send_fields[OF tick_sends(4)]
  have c': "ticks c' = remove1 AtHeartbeatAsync (ticks c)"
    "length (wire (obj c')) = Suc (length (wire (obj c)))"
    "heartbeat_running (obj c') = heartbeat_running (obj c)"
    by simp_all
  show ?thesis
    unfolding single_flight_def c' using n i by (simp split: if_splits)
next
  case (call_completes resp w)
  then obtain x xs where w: "wire (obj c) = x # xs" by (cases "wire (obj c)") auto
  with call_completes
  have hc: "Heartbeat_completed (hc_create x) ((obj c)\<lparr>heartbeat_resp := resp, wire := xs\<rparr>)
              = Inr w"
    by (simp add: HeartbeatAsync_complete_def)
  from Heartbeat_completed_fields[OF hc] w call_completes assms(2) show ?thesis
    by (auto simp: single_flight_def split: if_splits)
next
  case (operation op w)
  from PgClient_call_fields[OF operation(3)] operation assms(2) show ?thesis
    by (auto simp: single_flight_def)
qed (use assms(2) in \<open>auto simp: single_flight_def\<close>)

lemma reachable_single_flight: "reachable fl ti sid c \<Longrightarrow> single_flight c"
proof (induction rule: reachable.induct)
  case (constructed fl ti sid)
  show ?case by (simp add: single_flight_def sys_of_simps Impl_init_simps)
next
  case (started fl now proxy_cache scheduler tserver_shared_data resp sid st w ti)
  with Start_init[of fl now proxy_cache scheduler tserver_shared_data resp sid]
  show ?case by (auto simp: single_flight_def sys_of_simps)
next
  case (stepped fl ti sid c e c')
  then show ?case by (blast intro: step_single_flight)
qed

subsection \<open>The order of the teardown\<close>

lemma step_teardown_ordered:
  assumes "step fl ti c e c'" and "teardown_ordered c"
  shows "teardown_ordered c'"
  using assms
proof (cases rule: step.cases)
  case (tick_begins scheduler period)
  with assms(2) show ?thesis
    by (auto simp: teardown_ordered_def is_armed_def)
next
  case (tick_finds_flag_set w)
  from Heartbeat_guard_fields[OF tick_finds_flag_set(4)] tick_finds_flag_set(2,3) assms(2)
  show ?thesis by (auto simp: teardown_ordered_def)
next
  case (tick_takes_flag w)
  from Heartbeat_guard_fields[OF tick_takes_flag(4)] tick_takes_flag(2,3) assms(2)
  show ?thesis by (auto simp: teardown_ordered_def)
next
  case (tick_sends now w)
  from Heartbeat_send_fields[OF tick_sends(4)] tick_sends(2,3) assms(2)
  show ?thesis by (auto simp: teardown_ordered_def)
next
  case (call_completes resp w)
  from HeartbeatAsync_complete_fields[OF call_completes(4)] call_completes(2) assms(2)
  show ?thesis by (auto simp: teardown_ordered_def)
next
  case (operation op w)
  from PgClient_call_fields[OF operation(3)] operation(2) assms(2)
  show ?thesis by (auto simp: teardown_ordered_def)
next
  case shutdown_stops_poller
  with assms(2) show ?thesis
    by (auto simp: teardown_ordered_def Poller_Shutdown_def is_armed_def)
next
  case shutdown_poller_stopped
  with assms(2) show ?thesis by (auto simp: teardown_ordered_def)
next
  case shutdown_releases_proxy
  with assms(2) show ?thesis by (auto simp: teardown_ordered_def is_armed_def)
qed

lemma reachable_teardown_ordered: "reachable fl ti sid c \<Longrightarrow> teardown_ordered c"
proof (induction rule: reachable.induct)
  case (constructed fl ti sid)
  show ?case
    by (simp add: teardown_ordered_def sys_of_simps Impl_init_simps Poller_init_def
        is_armed_def)
next
  case (started fl now proxy_cache scheduler tserver_shared_data resp sid st w ti)
  with Start_init[of fl now proxy_cache scheduler tserver_shared_data resp sid]
  show ?case
    by (auto simp: teardown_ordered_def sys_of_simps Poller_init_def Poller_Start_def
        is_armed_def split: if_splits)
next
  case (stepped fl ti sid c e c')
  then show ?case by (blast intro: step_teardown_ordered)
qed

text \<open>
  Once the proxy is released every further step is one of the transport or an operation
  that fails; none is a step of the poller's callback, and the release stays.
\<close>

lemma released_step:
  assumes "step fl ti c e c'" and "teardown_ordered c" and "shutdown_at c = ProxyReleased"
  shows "\<not> is_tick_event e \<and> shutdown_at c' = ProxyReleased \<and> ticks c' = []"
  using assms
  by (cases rule: step.cases) (auto simp: teardown_ordered_def)

lemma released_run:
  assumes "run fl ti c es c'" and "teardown_ordered c" and "shutdown_at c = ProxyReleased"
  shows "list_all (\<lambda>e. \<not> is_tick_event e) es \<and> shutdown_at c' = ProxyReleased \<and> ticks c' = []"
  using assms
proof (induction rule: run.induct)
  case (run_nil fl ti c)
  then show ?case by (simp add: teardown_ordered_def)
next
  case (run_cons fl ti c e c1 es c2)
  from released_step[OF run_cons(1,4,5)] step_teardown_ordered[OF run_cons(1,4)] run_cons(3)
  show ?case by simp
qed

lemma reachable_run:
  assumes "run fl ti c es c'" and "reachable fl ti sid c"
  shows "reachable fl ti sid c'"
  using assms
  by (induction rule: run.induct) (auto intro: reachable.stepped)

lemma Shutdown_run:
  "run fl ti (sys_of w) [ShutdownStopsPoller, ShutdownPollerStopped, ShutdownReleasesProxy]
     \<lparr>obj = Shutdown w, ticks = [], shutdown_at = ProxyReleased\<rparr>"
proof -
  let ?c1 = "\<lparr>obj = w\<lparr>heartbeat_poller := Poller_Shutdown (heartbeat_poller w)\<rparr>, ticks = [],
              shutdown_at = PollerShutdownEntered\<rparr>"
  let ?c2 = "?c1\<lparr>shutdown_at := PollerShutdownReturned\<rparr>"
  let ?c3 = "?c2\<lparr>obj := (obj ?c2)\<lparr>proxy := None\<rparr>, shutdown_at := ProxyReleased\<rparr>"
  have "step fl ti (sys_of w) ShutdownStopsPoller
          ((sys_of w)\<lparr>obj := (obj (sys_of w))\<lparr>heartbeat_poller :=
                          Poller_Shutdown (heartbeat_poller (obj (sys_of w)))\<rparr>,
                       shutdown_at := PollerShutdownEntered\<rparr>)"
    by (rule step.shutdown_stops_poller) (simp add: sys_of_def)
  then have s1: "step fl ti (sys_of w) ShutdownStopsPoller ?c1"
    by (simp add: sys_of_def)
  have s2: "step fl ti ?c1 ShutdownPollerStopped ?c2"
    by (rule step.shutdown_poller_stopped) simp_all
  have s3: "step fl ti ?c2 ShutdownReleasesProxy ?c3"
    by (rule step.shutdown_releases_proxy) simp
  have e: "?c3 = \<lparr>obj = Shutdown w, ticks = [], shutdown_at = ProxyReleased\<rparr>"
    by (simp add: Shutdown_def Let_def)
  from s1 s2 s3 have "run fl ti (sys_of w)
      [ShutdownStopsPoller, ShutdownPollerStopped, ShutdownReleasesProxy] ?c3"
    by (blast intro: run.intros)
  with e show ?thesis by simp
qed

subsection \<open>What the requests carry\<close>

lemma sent_stamped_append:
  assumes "sent_stamped sid w" and "session_id w' = session_id w"
    and "sent w' = sent w @ [(r, c)]"
    and "carried_session_id r = (if stamped r then Some (session_id w) else None)"
  shows "sent_stamped sid w'"
  using assms by (simp add: sent_stamped_def)

lemma sent_stamped_same:
  assumes "sent_stamped sid w" and "session_id w' = session_id w" and "sent w' = sent w"
  shows "sent_stamped sid w'"
  using assms by (simp add: sent_stamped_def)

lemma step_sent_stamped:
  assumes "step fl ti c e c'" and "sent_stamped sid (obj c)"
  shows "sent_stamped sid (obj c')"
  using assms
proof (cases rule: step.cases)
  case (tick_finds_flag_set w)
  from Heartbeat_guard_fields[OF tick_finds_flag_set(4)] tick_finds_flag_set(2) assms(2)
  show ?thesis by (auto intro: sent_stamped_same)
next
  case (tick_takes_flag w)
  from Heartbeat_guard_fields[OF tick_takes_flag(4)] tick_takes_flag(2) assms(2)
  show ?thesis by (auto intro: sent_stamped_same)
next
  case (tick_sends now w)
  from Heartbeat_send_fields[OF tick_sends(4)]
  have "session_id w = session_id (obj c)"
    and "sent w = sent (obj c) @
           [(HeartbeatReq \<lparr>hb_create = Some (callback_create (heartbeat_poller (obj c))),
                          hb_session_id = Some (session_id (obj c))\<rparr>,
             heartbeat_controller w)]"
    by simp_all
  from sent_stamped_append[OF assms(2) this] tick_sends(2) show ?thesis by simp
next
  case (call_completes resp w)
  from HeartbeatAsync_complete_fields[OF call_completes(4)] call_completes(2) assms(2)
  show ?thesis by (auto intro: sent_stamped_same)
next
  case (operation op w)
  from PgClient_call_fields[OF operation(3)]
  have "session_id w = session_id (obj c)"
    and "sent w = sent (obj c) @ [(request_of (session_id (obj c)) op, controller w)]"
    by simp_all
  from sent_stamped_append[OF assms(2) this carried_request_of] operation(2)
  show ?thesis by simp
qed (use assms(2) in \<open>auto simp: sent_stamped_def\<close>)

lemma reachable_sent_stamped: "reachable fl ti sid c \<Longrightarrow> sent_stamped sid (obj c)"
proof (induction rule: reachable.induct)
  case (constructed fl ti sid)
  show ?case by (simp add: sent_stamped_def sys_of_simps Impl_init_simps)
next
  case (started fl now proxy_cache scheduler tserver_shared_data resp sid st w ti)
  with Start_init[of fl now proxy_cache scheduler tserver_shared_data resp sid]
  show ?case by (auto simp: sent_stamped_def sys_of_simps)
next
  case (stepped fl ti sid c e c')
  then show ?case by (blast intro: step_sent_stamped)
qed

subsection \<open>The arithmetic of the period and the deadline\<close>

lemma sint_deadline:
  fixes now i :: "64 word"
  assumes "0 \<le> sint now" and "sint now + int (unat i) * 1000000 < 2 ^ 63"
  shows "sint (now + i * 1000000) = sint now + int (unat i) * 1000000"
proof -
  have "sint now < 2 ^ 64"
    using sint_lt[of now] by simp
  with assms(1) have un: "uint now = sint now"
    by (simp add: uint_sint[of now] take_bit_int_eq_self)
  have "uint (i * 1000000) = (uint i * 1000000) mod 2 ^ 64"
    by (simp add: uint_word_ariths)
  moreover have "uint i * 1000000 < 2 ^ 64"
    using assms un by simp
  ultimately have m: "uint (i * 1000000) = uint i * 1000000"
    by simp
  have "uint (now + i * 1000000) = (uint now + uint (i * 1000000)) mod 2 ^ 64"
    by (simp add: uint_word_ariths)
  with m assms un have s: "uint (now + i * 1000000) = sint now + uint i * 1000000"
    by simp
  with assms have "uint (now + i * 1000000) < 2 ^ 63" by simp
  moreover have "- (2 ^ 63) \<le> uint (now + i * 1000000)"
    by (rule order_trans[of _ 0]) simp_all
  ultimately have "sint (now + i * 1000000) = uint (now + i * 1000000)"
    by (simp add: sint_uint[of "now + i * 1000000"] signed_take_bit_int_eq_self)
  with s show ?thesis by simp
qed

subsection \<open>The examples are reachable\<close>

lemma Start_example:
  "Start example_flags 5000 0 0 example_shared ok_response (Impl_init 7) =
     Inr (OK, example_started)"
  by (simp add: Start_def example_flags_def example_shared_def ok_response_def Impl_init_def
      example_started_def get_future_def promise_init_def Heartbeat_def Heartbeat_guard_def
      compare_exchange_strong_def Heartbeat_send_def PrepareHeartbeatController_def
      SetupAdminController_def Reset_def set_deadline_def set_timeout_def heartbeat_deadline_def
      heartbeat_interval_ms_def CoarseTimePoint_init_def HeartbeatAsync_def proxy_call_def
      PgHeartbeatRequestPB_init_def HeartbeatAsync_complete_def Heartbeat_completed_def
      ResponseStatus_def set_value_def future_get_def ok_def Poller_Start_def Poller_init_def
      heartbeat_period_ms_def RpcController_init_def Let_def)

lemma reachable_example_started:
  "reachable example_flags example_table_info 7 (sys_of example_started)"
  by (rule reachable.started[OF Start_example])

lemma example_started_simps:
  "proxy example_started =
     Some \<lparr>proxy_cache_of = 0, remote = \<lparr>hp_host = ''127.0.0.1'', hp_port = 9100\<rparr>,
           resolve_cache_timeout_of = Uninitialized\<rparr>"
  "\<not> heartbeat_running example_started" "session_id example_started = 7"
  "wire example_started = []"
  "heartbeat_poller example_started = \<lparr>callback_create = False, poller_state = Armed 0 9000\<rparr>"
  "heartbeat_controller example_started = \<lparr>bound = Some (Deadline 10000005000)\<rparr>"
  by (simp_all add: example_started_def)

lemma example_mid_tick_run:
  "run example_flags example_table_info (sys_of example_started)
     [TickBegins, TickTakesFlag] example_mid_tick"
proof -
  let ?c0 = "sys_of example_started"
  let ?c1 = "\<lparr>obj = example_started, ticks = [AtCompareExchange], shutdown_at = NotCalled\<rparr>"
  let ?w2 = "example_started\<lparr>heartbeat_running := True\<rparr>"
  have "step example_flags example_table_info ?c0 TickBegins
          (?c0\<lparr>ticks := AtCompareExchange # ticks ?c0\<rparr>)"
    by (rule step.tick_begins[where scheduler = 0 and period = 9000])
       (simp add: sys_of_def example_started_simps)
  then have s1: "step example_flags example_table_info ?c0 TickBegins ?c1"
    by (simp add: sys_of_def)
  have "step example_flags example_table_info ?c1 TickTakesFlag
          (?c1\<lparr>obj := ?w2, ticks := AtHeartbeatAsync # remove1 AtCompareExchange (ticks ?c1)\<rparr>)"
    by (rule step.tick_takes_flag) (simp_all add: Heartbeat_guard_clear example_started_simps)
  then have s2: "step example_flags example_table_info ?c1 TickTakesFlag example_mid_tick"
    by (simp add: example_mid_tick_def)
  from s1 s2 show ?thesis by (blast intro: run.intros)
qed

lemma reachable_example_mid_tick:
  "reachable example_flags example_table_info 7 example_mid_tick"
  by (rule reachable_run[OF example_mid_tick_run reachable_example_started])

lemma example_send_step:
  "step example_flags example_table_info example_mid_tick (TickSends 9005000)
     (sys_of example_in_flight)"
proof -
  have send: "Heartbeat_send example_flags 9005000
                (callback_create (heartbeat_poller (obj example_mid_tick))) (obj example_mid_tick)
              = Inr example_in_flight"
    by (simp add: Heartbeat_send_eq[where p = "the (proxy example_started)"]
        example_mid_tick_def example_started_simps example_in_flight_def
        SetupAdminController_eq Reset_def heartbeat_deadline_def heartbeat_interval_ms_def
        example_flags_def CoarseTimePoint_init_def)
  have "step example_flags example_table_info example_mid_tick (TickSends 9005000)
          (example_mid_tick\<lparr>obj := example_in_flight,
                            ticks := remove1 AtHeartbeatAsync (ticks example_mid_tick)\<rparr>)"
    by (rule step.tick_sends[OF _ send]) (simp add: example_mid_tick_def)
  then show ?thesis
    by (simp add: sys_of_def example_mid_tick_def)
qed

lemma reachable_example_in_flight:
  "reachable example_flags example_table_info 7 (sys_of example_in_flight)"
  by (rule reachable.stepped[OF reachable_example_mid_tick example_send_step])

lemma reachable_example_released:
  "reachable example_flags example_table_info 7 example_released"
  unfolding example_released_def
  by (rule reachable_run[OF Shutdown_run reachable_example_in_flight])

lemma example_settle_run:
  "run example_flags example_table_info example_released [CallCompletes ok_response]
     example_settled"
proof -
  have fin: "HeartbeatAsync_complete ok_response (obj example_released) =
                Inr ((Shutdown example_in_flight)\<lparr>heartbeat_running := False, wire := []\<rparr>)"
    by (simp add: HeartbeatAsync_complete_def Heartbeat_completed_def example_released_def
        Shutdown_def example_in_flight_def example_started_def ResponseStatus_def
        ok_response_def ok_def Let_def)
  have "step example_flags example_table_info example_released (CallCompletes ok_response)
          (example_released\<lparr>obj := (Shutdown example_in_flight)\<lparr>heartbeat_running := False,
                                                               wire := []\<rparr>\<rparr>)"
    by (rule step.call_completes[OF _ fin])
       (simp add: example_released_def Shutdown_def example_in_flight_def Let_def)
  then show ?thesis
    by (auto simp: example_settled_def intro: run.intros)
qed

subsection \<open>More of the examples\<close>

lemma explicit_deadline_not_init: "explicit_deadline op \<noteq> Some CoarseTimePoint_init"
  by (cases op) simp_all

lemma ReserveOids_example:
  "ReserveOids example_flags 1 2 3 reserve_reply example_started =
     Inr (Inr (2, 5), example_reserved)"
  by (simp add: ReserveOids_def reserve_reply_def example_reserved_def
      proxy_call_Some[where p = "the (proxy example_started)"] example_started_simps
      PrepareAdminController_def SetupAdminController_eq Reset_def CoarseTimePoint_init_def
      admin_operation_timeout_def example_flags_def ResponseStatus_def ok_def Let_def)

lemma reachable_example_reserved:
  "reachable example_flags example_table_info 7 (sys_of example_reserved)"
proof -
  from ReserveOids_example
  have "PgClient_call example_flags example_table_info (CallReserveOids 1 2 3 reserve_reply)
               (obj (sys_of example_started)) = Inr example_reserved"
    by (simp add: sys_of_def)
  then have "step example_flags example_table_info (sys_of example_started)
               (Operation (CallReserveOids 1 2 3 reserve_reply))
               ((sys_of example_started)\<lparr>obj := example_reserved\<rparr>)"
    by (rule step.operation)
  then have "step example_flags example_table_info (sys_of example_started)
               (Operation (CallReserveOids 1 2 3 reserve_reply)) (sys_of example_reserved)"
    by (simp add: sys_of_def)
  with reachable_example_started show ?thesis
    by (rule reachable.stepped)
qed

section \<open>The claims\<close>

text \<open>
  C1. After \<^verbatim>\<open>Shutdown()\<close> returns no heartbeat callback executes again: \<^verbatim>\<open>Shutdown\<close>
  stops the poller first, which returns only when no invocation of the callback is in
  progress, and releases the proxy after that. So in every reachable configuration a
  callback in progress finds the proxy in place, with \<^verbatim>\<open>Shutdown\<close> not yet past the
  poller; and from a configuration where the proxy is released no run has a step of the
  poller's callback, leaves a callback in progress or undoes the release. (The heartbeat
  callback is the one the poller invokes, \<^verbatim>\<open>Heartbeat(false)\<close>; the completion handler
  of a call that is still outstanding belongs to the transport, does not touch the proxy
  and may run later. The poller is modelled from the spec.)
\<close>

theorem no_heartbeat_callback_after_release:
  assumes "reachable fl ti sid c"
  shows "(ticks c \<noteq> [] \<longrightarrow>
            proxy (obj c) \<noteq> None \<and> shutdown_at c \<noteq> PollerShutdownReturned
            \<and> shutdown_at c \<noteq> ProxyReleased)
         \<and> (shutdown_at c = ProxyReleased \<longrightarrow>
              proxy (obj c) = None
              \<and> poller_state (heartbeat_poller (obj c)) = Stopped
              \<and> (\<forall>es c'. run fl ti c es c' \<longrightarrow>
                    list_all (\<lambda>e. \<not> is_tick_event e) es \<and> ticks c' = []
                    \<and> shutdown_at c' = ProxyReleased))"
proof -
  from assms have t: "teardown_ordered c"
    by (rule reachable_teardown_ordered)
  then have "ticks c \<noteq> [] \<longrightarrow>
      proxy (obj c) \<noteq> None \<and> shutdown_at c \<noteq> PollerShutdownReturned
      \<and> shutdown_at c \<noteq> ProxyReleased"
    by (auto simp: teardown_ordered_def)
  moreover from t have "shutdown_at c = ProxyReleased \<longrightarrow>
      proxy (obj c) = None \<and> poller_state (heartbeat_poller (obj c)) = Stopped"
    by (auto simp: teardown_ordered_def)
  moreover have "shutdown_at c = ProxyReleased \<longrightarrow>
      (\<forall>es c'. run fl ti c es c' \<longrightarrow>
         list_all (\<lambda>e. \<not> is_tick_event e) es \<and> ticks c' = []
         \<and> shutdown_at c' = ProxyReleased)"
    using released_run[OF _ t] by blast
  ultimately show ?thesis by blast
qed

theorem no_heartbeat_callback_after_release_witness:
  "reachable example_flags example_table_info 7 example_mid_tick
   \<and> ticks example_mid_tick = [AtHeartbeatAsync]
   \<and> proxy (obj example_mid_tick) \<noteq> None
   \<and> shutdown_at example_mid_tick = NotCalled
   \<and> reachable example_flags example_table_info 7 example_released
   \<and> shutdown_at example_released = ProxyReleased
   \<and> proxy (obj example_released) = None
   \<and> run example_flags example_table_info example_released [CallCompletes ok_response]
        example_settled
   \<and> \<not> is_tick_event (CallCompletes ok_response)
   \<and> ticks example_settled = []
   \<and> shutdown_at example_settled = ProxyReleased"
proof -
  note a = no_heartbeat_callback_after_release[OF reachable_example_mid_tick]
  note b = no_heartbeat_callback_after_release[OF reachable_example_released]
  have m: "ticks example_mid_tick = [AtHeartbeatAsync]" "shutdown_at example_mid_tick = NotCalled"
    by (simp_all add: example_mid_tick_def)
  have r: "shutdown_at example_released = ProxyReleased"
    by (simp add: example_released_def)
  from a m have "proxy (obj example_mid_tick) \<noteq> None" by simp
  moreover from b r have "proxy (obj example_released) = None" by simp
  moreover from b r example_settle_run
  have "list_all (\<lambda>e. \<not> is_tick_event e) [CallCompletes ok_response]
        \<and> ticks example_settled = [] \<and> shutdown_at example_settled = ProxyReleased"
    by blast
  ultimately show ?thesis
    using m r reachable_example_mid_tick reachable_example_released example_settle_run
    by simp
qed

text \<open>
  C2. Single flight: in every reachable configuration at most one heartbeat call is
  outstanding, and one is outstanding only while the flag is set. An invocation of
  \<^verbatim>\<open>Heartbeat\<close>, with \<^verbatim>\<open>create\<close> true or false, that finds the flag set logs the one
  line at severity \<^verbatim>\<open>DFATAL\<close> and returns: nothing is sent, nothing else changes. The
  flag is read and written by the one compare-exchange of the guard, which is one step
  of the interleaving.
\<close>

theorem single_flight_heartbeat:
  "(reachable fl ti sid c \<longrightarrow>
      length (wire (obj c)) \<le> 1 \<and> (wire (obj c) \<noteq> [] \<longrightarrow> heartbeat_running (obj c)))
   \<and> (heartbeat_running w \<longrightarrow>
        Heartbeat fl now create w =
          Inr (w\<lparr>glog := glog w @ [LogLine DFATAL ''Heartbeat did not complete yet'' Nothing]\<rparr>))
   \<and> (fst (Heartbeat_guard w), heartbeat_running (snd (Heartbeat_guard w))) =
        compare_exchange_strong (heartbeat_running w) False True"
proof -
  have "reachable fl ti sid c \<longrightarrow>
      length (wire (obj c)) \<le> 1 \<and> (wire (obj c) \<noteq> [] \<longrightarrow> heartbeat_running (obj c))"
  proof
    assume "reachable fl ti sid c"
    then have "single_flight c" by (rule reachable_single_flight)
    then show "length (wire (obj c)) \<le> 1 \<and> (wire (obj c) \<noteq> [] \<longrightarrow> heartbeat_running (obj c))"
      by (cases "heartbeat_running (obj c)") (auto simp: single_flight_def)
  qed
  moreover have "heartbeat_running w \<longrightarrow>
      Heartbeat fl now create w =
        Inr (w\<lparr>glog := glog w @ [LogLine DFATAL ''Heartbeat did not complete yet'' Nothing]\<rparr>)"
    by (simp add: Heartbeat_def Heartbeat_guard_set)
  moreover have "(fst (Heartbeat_guard w), heartbeat_running (snd (Heartbeat_guard w))) =
      compare_exchange_strong (heartbeat_running w) False True"
    by (simp add: Heartbeat_guard_def compare_exchange_strong_def)
  ultimately show ?thesis by blast
qed

theorem single_flight_heartbeat_witness:
  "reachable example_flags example_table_info 7 (sys_of example_in_flight)
   \<and> length (wire example_in_flight) = 1
   \<and> heartbeat_running example_in_flight
   \<and> Heartbeat example_flags 19005000 False example_in_flight =
       Inr (example_in_flight
              \<lparr>glog := glog example_in_flight @
                 [LogLine DFATAL ''Heartbeat did not complete yet'' Nothing]\<rparr>)"
proof -
  have r: "heartbeat_running example_in_flight" "length (wire example_in_flight) = 1"
    by (simp_all add: example_in_flight_def)
  from r(1)
    single_flight_heartbeat[of example_flags example_table_info 7 "sys_of example_in_flight"
      example_in_flight 19005000 False]
  have "Heartbeat example_flags 19005000 False example_in_flight =
       Inr (example_in_flight
              \<lparr>glog := glog example_in_flight @
                 [LogLine DFATAL ''Heartbeat did not complete yet'' Nothing]\<rparr>)"
    by blast
  with r reachable_example_in_flight show ?thesis by simp
qed

text \<open>
  C3. \<^verbatim>\<open>Start\<close> on an object whose flag is clear, with no call outstanding and the
  promise untouched (the object as constructed), returns the status of the creation
  heartbeat's response, whatever it is: OK exactly when that status is OK, the same
  failure otherwise. (That status is the one embedded in the response the completion
  handler finds in \<^verbatim>\<open>heartbeat_resp_\<close>; the handler reads nothing else.) The promise is
  settled with that status by then; the poller is armed, with the period \<^verbatim>\<open>Start\<close>
  computes, when the status is OK and is left as it was when it is not.
\<close>

theorem Start_returns_creation_status:
  assumes "\<not> heartbeat_running w" and "wire w = []"
    and "promise_value (create_session_promise w) = None"
    and "\<not> future_retrieved (create_session_promise w)"
  shows "\<exists>w'. Start fl now pc sch sd resp w = Inr (ResponseStatus resp, w')
           \<and> promise_value (create_session_promise w') = Some (ResponseStatus resp)
           \<and> poller_state (heartbeat_poller w') =
               (if ok (ResponseStatus resp) then Armed sch (heartbeat_period_ms fl)
                else poller_state (heartbeat_poller w))"
proof -
  from Start_facts[OF assms(1-4), of fl now pc sch sd resp]
  obtain w' where w': "Start fl now pc sch sd resp w = Inr (ResponseStatus resp, w')"
    "heartbeat_poller w' =
       (if ok (ResponseStatus resp)
        then Poller_Start sch (heartbeat_period_ms fl) (heartbeat_poller w)
        else heartbeat_poller w)"
    "promise_value (create_session_promise w') = Some (ResponseStatus resp)"
    by blast
  from w'(2)
  have "poller_state (heartbeat_poller w') =
          (if ok (ResponseStatus resp) then Armed sch (heartbeat_period_ms fl)
           else poller_state (heartbeat_poller w))"
    by (simp add: Poller_Start_def)
  with w'(1,3) show ?thesis by blast
qed

theorem Start_returns_creation_status_witness:
  "\<exists>w'. Start example_flags 5000 0 0 example_shared
           \<lparr>resp_status = Some (NotOK 5 ''session expired''), resp_fields = ()\<rparr> (Impl_init 7)
         = Inr (NotOK 5 ''session expired'', w')
       \<and> promise_value (create_session_promise w') = Some (NotOK 5 ''session expired'')
       \<and> poller_state (heartbeat_poller w') = Idle"
  using Start_returns_creation_status[of "Impl_init 7" example_flags 5000 0 0 example_shared
      "\<lparr>resp_status = Some (NotOK 5 ''session expired''), resp_fields = ()\<rparr>"]
  by (simp add: Impl_init_simps promise_init_def Poller_init_def ResponseStatus_def ok_def)

text \<open>
  C4, as the spec states it, fails: the request of \<^verbatim>\<open>ReserveOids\<close> is built from the
  three oids alone. On the client constructed with session id 7 and started, the request
  that goes out carries no session id.
\<close>

theorem ReserveOids_request_without_session_id:
  "reachable example_flags example_table_info 7 (sys_of example_started)
   \<and> ReserveOids example_flags 1 2 3 reserve_reply example_started =
       Inr (Inr (2, 5), example_reserved)
   \<and> reachable example_flags example_table_info 7 (sys_of example_reserved)
   \<and> session_id example_reserved = 7
   \<and> fst (last (sent example_reserved)) =
       ReserveOidsReq \<lparr>reserve_database_oid = Some 1, reserve_next_oid = Some 2,
                       reserve_count = Some 3\<rparr>
   \<and> carried_session_id (fst (last (sent example_reserved))) = None
   \<and> carried_session_id (fst (last (sent example_reserved))) \<noteq> Some 7"
  using ReserveOids_example reachable_example_started reachable_example_reserved
  by (simp add: example_reserved_def example_started_simps)

text \<open>
  C4, amended. In every configuration a client constructed with the session id \<open>sid\<close>
  reaches, the object's session id is still \<open>sid\<close>, and of the requests it has handed to
  the proxy the heartbeats and those of \<^verbatim>\<open>AlterTable\<close>, \<^verbatim>\<open>CreateDatabase\<close> and
  \<^verbatim>\<open>CreateTable\<close> carry \<open>sid\<close>, while those of \<^verbatim>\<open>OpenTable\<close>, \<^verbatim>\<open>GetDatabaseInfo\<close>,
  \<^verbatim>\<open>ReserveOids\<close> and \<^verbatim>\<open>IsInitDbDone\<close> carry no session id.
\<close>

theorem session_id_on_stamped_requests:
  assumes "reachable fl ti sid c"
  shows "session_id (obj c) = sid
         \<and> (\<forall>(r, ctl) \<in> set (sent (obj c)).
               carried_session_id r = (if stamped r then Some sid else None))"
  using reachable_sent_stamped[OF assms]
  by (simp add: sent_stamped_def list_all_iff)

theorem session_id_on_stamped_requests_witness:
  "reachable example_flags example_table_info 7 (sys_of example_reserved)
   \<and> session_id example_reserved = 7
   \<and> map (\<lambda>(r, ctl). (stamped r, carried_session_id r)) (sent example_reserved) =
       [(True, Some 7), (False, None)]"
  using session_id_on_stamped_requests[OF reachable_example_reserved]
    reachable_example_reserved
  by (simp add: sys_of_def example_reserved_def example_started_def)

text \<open>
  C5. Every operation called on a client whose proxy is in place hands its request to
  the proxy with \<^verbatim>\<open>controller_\<close> bounded by the caller's deadline when the call supplies
  one (a deadline other than \<^verbatim>\<open>CoarseTimePoint()\<close>, which \<^verbatim>\<open>AlterTable\<close>,
  \<^verbatim>\<open>CreateDatabase\<close> and \<^verbatim>\<open>CreateTable\<close> can), and by the timeout of
  \<^verbatim>\<open>FLAGS_yb_client_admin_operation_timeout_sec\<close> seconds otherwise.
\<close>

theorem operation_deadline_or_default_timeout:
  assumes "proxy w = Some p"
  shows "\<exists>w' req. PgClient_call fl ti op w = Inr w'
           \<and> sent w' = sent w @ [(req, controller w')]
           \<and> bound (controller w') =
               Some (case explicit_deadline op of
                       Some d \<Rightarrow> Deadline d
                     | None \<Rightarrow> Timeout (admin_operation_timeout fl))"
  unfolding PgClient_call_eq[OF assms]
  using explicit_deadline_not_init[of op]
  by (cases "explicit_deadline op") (auto simp: bound_SetupAdminController)

theorem operation_deadline_or_default_timeout_witness:
  "(\<exists>w' req. PgClient_call example_flags example_table_info
               (CallAlterTable \<lparr>req_session_id = None, req_fields = ''add column''\<rparr> 123
                  (OK, \<lparr>resp_status = None, resp_fields = ()\<rparr>)) example_started = Inr w'
            \<and> sent w' = sent example_started @ [(req, controller w')]
            \<and> bound (controller w') = Some (Deadline 123))
   \<and> (\<exists>w' req. PgClient_call example_flags example_table_info
               (CallIsInitDbDone (OK, \<lparr>resp_status = None, resp_fields = True\<rparr>))
               example_started = Inr w'
            \<and> sent w' = sent example_started @ [(req, controller w')]
            \<and> bound (controller w') = Some (Timeout (Nanoseconds 60000000000)))"
proof -
  have p: "proxy example_started = Some (the (proxy example_started))"
    by (simp add: example_started_simps)
  from operation_deadline_or_default_timeout[OF p, of example_flags example_table_info
      "CallAlterTable \<lparr>req_session_id = None, req_fields = ''add column''\<rparr> 123
         (OK, \<lparr>resp_status = None, resp_fields = ()\<rparr>)"]
    operation_deadline_or_default_timeout[OF p, of example_flags example_table_info
      "CallIsInitDbDone (OK, \<lparr>resp_status = None, resp_fields = True\<rparr>)"]
  show ?thesis
    by (simp add: CoarseTimePoint_init_def admin_operation_timeout_def example_flags_def)
qed

text \<open>
  C6. The claim: on a successful \<^verbatim>\<open>Start\<close> the period the poller is armed with is the
  heartbeat interval minus a small margin, positive and strictly below the interval for
  every configured interval. The code does not keep it. With the interval at 100 ms
  \<^verbatim>\<open>Start\<close> succeeds and arms the poller with 100 ms minus 1000 ms, subtracted in
  uint64 with no guard: \<open>2^64 - 900\<close> ms, not below the interval, and -900 ms when the
  count is read as signed, not positive.
\<close>

theorem short_interval_period_not_below_interval:
  "(\<exists>w'. Start short_interval_flags 5000 0 0 example_shared ok_response (Impl_init 7) =
            Inr (OK, w')
          \<and> poller_state (heartbeat_poller w') = Armed 0 18446744073709550716)
   \<and> unat (heartbeat_interval_ms short_interval_flags) = 100
   \<and> heartbeat_period_ms short_interval_flags = 18446744073709550716
   \<and> \<not> unat (heartbeat_period_ms short_interval_flags)
         < unat (heartbeat_interval_ms short_interval_flags)
   \<and> sint (heartbeat_period_ms short_interval_flags) = - 900"
proof -
  have i: "heartbeat_interval_ms short_interval_flags = 100"
    by (simp add: heartbeat_interval_ms_def short_interval_flags_def)
  then have p: "heartbeat_period_ms short_interval_flags = 18446744073709550716"
    by (simp add: heartbeat_period_ms_def)
  from Start_init[of short_interval_flags 5000 0 0 example_shared ok_response 7]
  have "\<exists>w'. Start short_interval_flags 5000 0 0 example_shared ok_response (Impl_init 7) =
            Inr (OK, w')
          \<and> poller_state (heartbeat_poller w') = Armed 0 18446744073709550716"
    by (auto simp: ResponseStatus_def ok_response_def ok_def Poller_Start_def Poller_init_def p)
  with i p show ?thesis by simp
qed

text \<open>
  C7. A heartbeat, with \<^verbatim>\<open>create\<close> true or false, issued at the clock reading \<open>now\<close>
  while the flag is clear goes out with the heartbeat controller bounded by a deadline,
  and the deadline is \<open>now\<close> plus the heartbeat interval: as integers, nanoseconds since
  the epoch, for every reading that is not before the epoch and every positive interval
  whose sum with it fits a \<^verbatim>\<open>CoarseTimePoint\<close>. It is not the timeout of
  \<^verbatim>\<open>FLAGS_yb_client_admin_operation_timeout_sec\<close> that the operations fall back to.
\<close>

theorem heartbeat_deadline_is_issue_plus_interval:
  assumes "proxy w = Some p" and "\<not> heartbeat_running w"
    and "0 \<le> sint now"
    and "0 < FLAGS_pg_client_heartbeat_interval_ms fl"
    and "sint now + int (unat (FLAGS_pg_client_heartbeat_interval_ms fl)) * 1000000 < 2 ^ 63"
  shows "\<exists>w' d. Heartbeat fl now create w = Inr w'
           \<and> sent w' = sent w @
               [(HeartbeatReq \<lparr>hb_create = Some create, hb_session_id = Some (session_id w)\<rparr>,
                 heartbeat_controller w')]
           \<and> bound (heartbeat_controller w') = Some (Deadline d)
           \<and> sint d = sint now + int (unat (FLAGS_pg_client_heartbeat_interval_ms fl)) * 1000000
           \<and> bound (heartbeat_controller w') \<noteq> Some (Timeout (admin_operation_timeout fl))"
proof -
  let ?d = "heartbeat_deadline fl now"
  have s: "sint ?d = sint now + int (unat (FLAGS_pg_client_heartbeat_interval_ms fl)) * 1000000"
    unfolding heartbeat_deadline_def heartbeat_interval_ms_def
    using sint_deadline[OF assms(3,5)] by simp
  from assms(4) have "0 < uint (FLAGS_pg_client_heartbeat_interval_ms fl)"
    by (simp add: word_less_def)
  with s assms(3) have "0 < sint ?d" by simp
  then have nz: "?d \<noteq> CoarseTimePoint_init"
    by (auto simp: CoarseTimePoint_init_def)
  let ?w' = "w\<lparr>heartbeat_running := True,
               heartbeat_controller :=
                 SetupAdminController fl (Reset (heartbeat_controller w)) ?d,
               sent := sent w @
                 [(HeartbeatReq \<lparr>hb_create = Some create, hb_session_id = Some (session_id w)\<rparr>,
                   SetupAdminController fl (Reset (heartbeat_controller w)) ?d)],
               wire := wire w @
                 [\<lparr>hc_req = \<lparr>hb_create = Some create, hb_session_id = Some (session_id w)\<rparr>,
                   hc_create = create\<rparr>]\<rparr>"
  from assms(1,2) have "Heartbeat fl now create w = Inr ?w'"
    by (simp add: Heartbeat_def Heartbeat_guard_clear Heartbeat_send_eq[where p = p])
  moreover have "sent ?w' = sent w @
          [(HeartbeatReq \<lparr>hb_create = Some create, hb_session_id = Some (session_id w)\<rparr>,
            heartbeat_controller ?w')]"
    by simp
  moreover from nz have "bound (heartbeat_controller ?w') = Some (Deadline ?d)"
    by (simp add: bound_SetupAdminController)
  ultimately obtain w' where h: "Heartbeat fl now create w = Inr w'"
    and t: "sent w' = sent w @
          [(HeartbeatReq \<lparr>hb_create = Some create, hb_session_id = Some (session_id w)\<rparr>,
            heartbeat_controller w')]"
    and b: "bound (heartbeat_controller w') = Some (Deadline ?d)"
    by blast
  from b have "bound (heartbeat_controller w') \<noteq> Some (Timeout (admin_operation_timeout fl))"
    by simp
  with h t b s show ?thesis by blast
qed

theorem heartbeat_deadline_is_issue_plus_interval_witness:
  "\<exists>w'. Heartbeat example_flags 9005000 False example_started = Inr w'
       \<and> bound (heartbeat_controller w') = Some (Deadline 10009005000)
       \<and> sint (10009005000 :: CoarseTimePoint) = 9005000 + 10000 * 1000000"
proof -
  have p: "proxy example_started = Some (the (proxy example_started))"
    by (simp add: example_started_simps)
  have "\<not> heartbeat_running example_started" by (simp add: example_started_simps)
  from heartbeat_deadline_is_issue_plus_interval[OF p this, of 9005000 example_flags False]
  obtain w' d where "Heartbeat example_flags 9005000 False example_started = Inr w'"
    "bound (heartbeat_controller w') = Some (Deadline d)" "sint d = 10009005000"
    by (auto simp: example_flags_def)
  moreover from this(3) have "sint d = sint (10009005000 :: CoarseTimePoint)"
    by simp
  then have "d = 10009005000"
    by (rule signed_word_eqI)
  ultimately show ?thesis by auto
qed

text \<open>
  C8. The completion handler clears the flag. For the creation heartbeat it settles the
  promise with the status of the response, OK or not, and does nothing else; the promise
  can be settled once only (a second \<^verbatim>\<open>set_value\<close> throws). For any other heartbeat a
  status that is not OK is logged as a warning and goes nowhere else (the promise, the
  poller, the requests sent stay as they are), and an OK status leaves no trace but the
  cleared flag.
\<close>

theorem completion_handler_outcomes:
  "(promise_value (create_session_promise w) = None \<longrightarrow>
      Heartbeat_completed True w =
        Inr (w\<lparr>heartbeat_running := False,
               create_session_promise :=
                 (create_session_promise w)
                   \<lparr>promise_value := Some (ResponseStatus (heartbeat_resp w))\<rparr>\<rparr>))
   \<and> (promise_value (create_session_promise w) \<noteq> None \<longrightarrow>
        Heartbeat_completed True w = Inl PromiseAlreadySatisfied)
   \<and> (ok (ResponseStatus (heartbeat_resp w)) \<longrightarrow>
        Heartbeat_completed False w = Inr (w\<lparr>heartbeat_running := False\<rparr>))
   \<and> (\<not> ok (ResponseStatus (heartbeat_resp w)) \<longrightarrow>
        Heartbeat_completed False w =
          Inr (w\<lparr>heartbeat_running := False,
                 glog := glog w @
                   [LogLine WARNING ''Heartbeat failed: ''
                      (StreamedStatus (ResponseStatus (heartbeat_resp w)))]\<rparr>))"
  by (simp add: Heartbeat_completed_def set_value_def Let_def)

theorem completion_handler_outcomes_witness:
  "Heartbeat_completed True
     ((Impl_init 7)\<lparr>heartbeat_running := True,
                    heartbeat_resp := \<lparr>resp_status = Some (NotOK 5 ''no''), resp_fields = ()\<rparr>\<rparr>)
     = Inr ((Impl_init 7)
              \<lparr>heartbeat_resp := \<lparr>resp_status = Some (NotOK 5 ''no''), resp_fields = ()\<rparr>,
               create_session_promise :=
                 \<lparr>promise_value = Some (NotOK 5 ''no''), future_retrieved = False\<rparr>\<rparr>)
   \<and> Heartbeat_completed True example_in_flight = Inl PromiseAlreadySatisfied
   \<and> Heartbeat_completed False example_in_flight =
       Inr (example_in_flight\<lparr>heartbeat_running := False\<rparr>)
   \<and> Heartbeat_completed False
       (example_in_flight
          \<lparr>heartbeat_resp := \<lparr>resp_status = Some (NotOK 5 ''no''), resp_fields = ()\<rparr>\<rparr>)
     = Inr (example_in_flight
              \<lparr>heartbeat_resp := \<lparr>resp_status = Some (NotOK 5 ''no''), resp_fields = ()\<rparr>,
               heartbeat_running := False,
               glog := glog example_in_flight @
                 [LogLine WARNING ''Heartbeat failed: '' (StreamedStatus (NotOK 5 ''no''))]\<rparr>)"
  using completion_handler_outcomes[of
      "(Impl_init 7)\<lparr>heartbeat_running := True,
         heartbeat_resp := \<lparr>resp_status = Some (NotOK 5 ''no''), resp_fields = ()\<rparr>\<rparr>"]
    completion_handler_outcomes[of example_in_flight]
    completion_handler_outcomes[of
      "example_in_flight
         \<lparr>heartbeat_resp := \<lparr>resp_status = Some (NotOK 5 ''no''), resp_fields = ()\<rparr>\<rparr>"]
  by (simp add: Impl_init_def promise_init_def example_in_flight_def example_started_def
      ResponseStatus_def ok_response_def ok_def)

text \<open>
  C9. \<^verbatim>\<open>Shutdown()\<close> on a client that was never started goes through: stopping the
  poller that was never armed has no callback to wait for, releasing the null proxy
  dereferences nothing, and what is left is the constructed object with its poller
  stopped, which the destructor's check accepts. (The poller is modelled from the spec.)
\<close>

theorem Shutdown_without_Start:
  "Shutdown (Impl_init sid) =
     (Impl_init sid)\<lparr>heartbeat_poller := \<lparr>callback_create = False, poller_state = Stopped\<rparr>\<rparr>
   \<and> proxy (Shutdown (Impl_init sid)) = None
   \<and> Impl_destroy (Shutdown (Impl_init sid)) = Inr ()
   \<and> run fl ti (sys_of (Impl_init sid))
        [ShutdownStopsPoller, ShutdownPollerStopped, ShutdownReleasesProxy]
        \<lparr>obj = Shutdown (Impl_init sid), ticks = [], shutdown_at = ProxyReleased\<rparr>"
  using Shutdown_run[of fl ti "Impl_init sid"]
  by (simp add: Shutdown_def Impl_init_def Poller_Shutdown_def Poller_init_def Impl_destroy_def
      Let_def)

theorem Shutdown_without_Start_witness:
  "Impl_destroy (Shutdown (Impl_init 7)) = Inr ()
   \<and> poller_state (heartbeat_poller (Shutdown (Impl_init 7))) = Stopped
   \<and> run example_flags example_table_info (sys_of (Impl_init 7))
        [ShutdownStopsPoller, ShutdownPollerStopped, ShutdownReleasesProxy]
        \<lparr>obj = Shutdown (Impl_init 7), ticks = [], shutdown_at = ProxyReleased\<rparr>"
proof -
  note t = Shutdown_without_Start[of 7 example_flags example_table_info]
  from t have a: "Impl_destroy (Shutdown (Impl_init 7)) = Inr ()"
    by blast
  from t have "Shutdown (Impl_init 7) =
      (Impl_init 7)\<lparr>heartbeat_poller := \<lparr>callback_create = False, poller_state = Stopped\<rparr>\<rparr>"
    by blast
  then have b: "poller_state (heartbeat_poller (Shutdown (Impl_init 7))) = Stopped"
    by simp
  from t have "run example_flags example_table_info (sys_of (Impl_init 7))
        [ShutdownStopsPoller, ShutdownPollerStopped, ShutdownReleasesProxy]
        \<lparr>obj = Shutdown (Impl_init 7), ticks = [], shutdown_at = ProxyReleased\<rparr>"
    by blast
  with a b show ?thesis by blast
qed

text \<open>
  C10. The object \<^verbatim>\<open>Start\<close> returns, with whatever status, has its proxy constructed:
  destroying it fails the destructor's \<^verbatim>\<open>CHECK(!proxy_)\<close>, and destroying it after
  \<^verbatim>\<open>Shutdown()\<close> passes the check. The check passes exactly when the proxy is null.
\<close>

theorem destroy_requires_Shutdown:
  assumes "Start fl now pc sch sd resp w = Inr (st, w')"
  shows "Impl_destroy w' = Inl CheckFailed
         \<and> Impl_destroy (Shutdown w') = Inr ()
         \<and> (Impl_destroy v = Inr ()) = (proxy v = None)"
  using Start_proxy[OF assms]
  by (simp add: Impl_destroy_def Shutdown_def Let_def)

theorem destroy_requires_Shutdown_witness:
  "Start example_flags 5000 0 0 example_shared ok_response (Impl_init 7) =
     Inr (OK, example_started)
   \<and> Impl_destroy example_started = Inl CheckFailed
   \<and> Impl_destroy (Shutdown example_started) = Inr ()"
  using destroy_requires_Shutdown[OF Start_example] Start_example
  by simp

end
